theory Spec2Isabelle
  imports Main
begin

section \<open>Shared data: errors, dialect, table metadata\<close>

text \<open>
  The repository holds four snapshots of the query builder:
  \<^item> \<^verbatim>\<open>query.go\<close>, first part (lines 1-809): the filter algebra and a plan whose where
    clause is an \<^verbatim>\<open>andFilter\<close>; its plan-level names carry the suffix \<open>_q1\<close> below;
  \<^item> \<^verbatim>\<open>query.go\<close>, second part (lines 810-1302): columns are found by reflection at every
    call (\<^verbatim>\<open>findFieldType\<close>); suffix \<open>_q2\<close>;
  \<^item> \<^verbatim>\<open>query.go\<close>, third part (lines 1303-1801): columns are found in a prebuilt
    \<^verbatim>\<open>targetColMap\<close>; suffix \<open>_q3\<close>;
  \<^item> \<^verbatim>\<open>query_plans.go\<close>: the join-capable plan; its names are kept as they are.

  Go strings are byte sequences and are modelled as \<^typ>\<open>string\<close>; a \<^verbatim>\<open>bytes.Buffer\<close> is the
  string written so far. Field addresses (\<^verbatim>\<open>interface{}\<close> values holding a pointer, compared
  with \<^verbatim>\<open>==\<close>) are values of a type \<open>'a\<close> compared with \<open>=\<close>; query arguments are values
  of a type \<open>'v\<close>. Bind indices are \<^verbatim>\<open>len(args)\<close> sums and never negative: they are
  \<^typ>\<open>nat\<close>.
\<close>

text \<open>\<^verbatim>\<open>errors.New(msg)\<close>, and the errors the external collaborators (executor, table
  registry) hand back.\<close>

datatype error = New string | External string

text \<open>The dialect collaborator (an interface declared outside the two files): the three
  methods the builder calls.\<close>

record Dialect =
  QuoteField :: "string \<Rightarrow> string"
  BindVar :: "nat \<Rightarrow> string"
  QuotedTableForQuery :: "string \<Rightarrow> string \<Rightarrow> string"

text \<open>\<^verbatim>\<open>ColumnMap\<close> and \<^verbatim>\<open>TableMap\<close> are declared outside the two files; these are the
  fields the builder reads. \<open>dbmap_Dialect\<close> stands for \<^verbatim>\<open>table.dbmap.Dialect\<close>.\<close>

record ColumnMap =
  fieldName :: string
  ColumnName :: string
  Transient :: bool

record TableMap =
  TableName :: string
  SchemaName :: string
  columns :: "ColumnMap list"
  dbmap_Dialect :: Dialect

section \<open>The filter algebra (query.go, lines 10-184)\<close>

text \<open>
  The \<^verbatim>\<open>Filter\<close> interface has the six implementations below. \<^verbatim>\<open>andFilter\<close> and
  \<^verbatim>\<open>orFilter\<close> embed \<^verbatim>\<open>combinedFilter\<close>, whose only field is the list of sub-filters.
\<close>

datatype ('a, 'v) Filter =
    comparisonFilter 'a string 'v
  | notFilter "('a, 'v) Filter"
  | nullFilter 'a
  | notNullFilter 'a
  | andFilter "('a, 'v) Filter list"
  | orFilter "('a, 'v) Filter list"

text \<open>
  \<^verbatim>\<open>Where(structMap, dialect, startBindIdx)\<close>. Every implementation uses \<^verbatim>\<open>structMap\<close> only
  through \<^verbatim>\<open>structMap.columnForPointer\<close>, which query.go and query_plans.go each define for
  their own \<^verbatim>\<open>structColumnMap\<close>; the model takes that method, applied to the map, as the
  argument \<open>cfp\<close>. \<open>joinFilters_loop\<close> is the \<^verbatim>\<open>for index, subFilter := range\<close> loop of
  \<^verbatim>\<open>joinFilters\<close> with its three variables (index, buffer, args).
\<close>

fun Where :: "('a \<Rightarrow> error + string) \<Rightarrow> Dialect \<Rightarrow> nat \<Rightarrow> ('a, 'v) Filter
      \<Rightarrow> error + (string \<times> 'v list)"
  and joinFilters :: "string \<Rightarrow> ('a \<Rightarrow> error + string) \<Rightarrow> Dialect \<Rightarrow> nat
      \<Rightarrow> ('a, 'v) Filter list \<Rightarrow> error + (string \<times> 'v list)"
  and joinFilters_loop :: "string \<Rightarrow> ('a \<Rightarrow> error + string) \<Rightarrow> Dialect \<Rightarrow> nat
      \<Rightarrow> nat \<Rightarrow> string \<Rightarrow> 'v list \<Rightarrow> ('a, 'v) Filter list \<Rightarrow> error + (string \<times> 'v list)"
where
  "Where cfp dialect startBindIdx (comparisonFilter addr comparison v) =
     (case cfp addr of
        Inl err \<Rightarrow> Inl err
      | Inr column \<Rightarrow> Inr (column @ comparison @ BindVar dialect startBindIdx, [v]))"
| "Where cfp dialect startBindIdx (notFilter f) =
     (case Where cfp dialect startBindIdx f of
        Inl err \<Rightarrow> Inl err
      | Inr (whereStr, args) \<Rightarrow> Inr (''NOT '' @ whereStr, args))"
| "Where cfp dialect startBindIdx (nullFilter addr) =
     (case cfp addr of
        Inl err \<Rightarrow> Inl err
      | Inr column \<Rightarrow> Inr (column @ '' IS NULL'', []))"
| "Where cfp dialect startBindIdx (notNullFilter addr) =
     (case cfp addr of
        Inl err \<Rightarrow> Inl err
      | Inr column \<Rightarrow> Inr (column @ '' IS NOT NULL'', []))"
| "Where cfp dialect startBindIdx (andFilter subFilters) =
     joinFilters '' and '' cfp dialect startBindIdx subFilters"
| "Where cfp dialect startBindIdx (orFilter subFilters) =
     joinFilters '' or '' cfp dialect startBindIdx subFilters"
| "joinFilters separator cfp dialect startBindIdx subFilters =
     (case joinFilters_loop separator cfp dialect startBindIdx 0
             (if length subFilters > 1 then ''('' else []) [] subFilters of
        Inl err \<Rightarrow> Inl err
      | Inr (buffer, args) \<Rightarrow>
          Inr (buffer @ (if length subFilters > 1 then '')'' else []), args))"
| "joinFilters_loop separator cfp dialect startBindIdx index buffer args [] =
     Inr (buffer, args)"
| "joinFilters_loop separator cfp dialect startBindIdx index buffer args (subFilter # rest) =
     (case Where cfp dialect (startBindIdx + length args) subFilter of
        Inl err \<Rightarrow> Inl err
      | Inr (nextWhere, nextArgs) \<Rightarrow>
          joinFilters_loop separator cfp dialect startBindIdx (Suc index)
            (buffer @ (if index \<noteq> 0 then separator else []) @ nextWhere)
            (args @ nextArgs) rest)"

text \<open>The constructors of query.go, lines 131-184. \<open>Not_f\<close> is \<^verbatim>\<open>Not\<close>.\<close>

definition Or :: "('a, 'v) Filter list \<Rightarrow> ('a, 'v) Filter" where
  "Or filters = orFilter filters"

definition And :: "('a, 'v) Filter list \<Rightarrow> ('a, 'v) Filter" where
  "And filters = andFilter filters"

definition Not_f :: "('a, 'v) Filter \<Rightarrow> ('a, 'v) Filter" where
  "Not_f f = notFilter f"

definition Null :: "'a \<Rightarrow> ('a, 'v) Filter" where
  "Null fieldPtr = nullFilter fieldPtr"

definition NotNull :: "'a \<Rightarrow> ('a, 'v) Filter" where
  "NotNull fieldPtr = notNullFilter fieldPtr"

definition Equal :: "'a \<Rightarrow> 'v \<Rightarrow> ('a, 'v) Filter" where
  "Equal fieldPtr v = comparisonFilter fieldPtr ''='' v"

definition NotEqual :: "'a \<Rightarrow> 'v \<Rightarrow> ('a, 'v) Filter" where
  "NotEqual fieldPtr v = comparisonFilter fieldPtr ''!='' v"

definition Less :: "'a \<Rightarrow> 'v \<Rightarrow> ('a, 'v) Filter" where
  "Less fieldPtr v = comparisonFilter fieldPtr ''<'' v"

definition LessOrEqual :: "'a \<Rightarrow> 'v \<Rightarrow> ('a, 'v) Filter" where
  "LessOrEqual fieldPtr v = comparisonFilter fieldPtr ''<='' v"

definition Greater :: "'a \<Rightarrow> 'v \<Rightarrow> ('a, 'v) Filter" where
  "Greater fieldPtr v = comparisonFilter fieldPtr ''='' v"

definition GreaterOrEqual :: "'a \<Rightarrow> 'v \<Rightarrow> ('a, 'v) Filter" where
  "GreaterOrEqual fieldPtr v = comparisonFilter fieldPtr ''='' v"

text \<open>The \<^verbatim>\<open>structColumnMap\<close> of query.go, lines 337-367.\<close>

record 'a fieldColumnMap_q1 =
  addr_q1 :: 'a
  column_q1 :: ColumnMap
  quotedColumn_q1 :: string

definition errTransient :: error where
  "errTransient = New ''gorp: Cannot run queries against transient columns''"

definition errNoField :: error where
  "errNoField = New ''gorp: Cannot find a field matching the passed in pointer''"

fun columnForPointer_q1 :: "'a fieldColumnMap_q1 list \<Rightarrow> 'a \<Rightarrow> error + string" where
  "columnForPointer_q1 [] fieldPtr = Inl errNoField"
| "columnForPointer_q1 (fieldMap # structMap) fieldPtr =
     (if addr_q1 fieldMap = fieldPtr
      then (if Transient (column_q1 fieldMap) then Inl errTransient
            else Inr (quotedColumn_q1 fieldMap))
      else columnForPointer_q1 structMap fieldPtr)"

text \<open>\<^verbatim>\<open>strings.Join\<close>.\<close>

fun strings_Join :: "string list \<Rightarrow> string \<Rightarrow> string" where
  "strings_Join [] sep = []"
| "strings_Join [s] sep = s"
| "strings_Join (s # t # ss) sep = s @ sep @ strings_Join (t # ss) sep"

text \<open>A dialect for the concrete examples: PostgreSQL's numbered placeholders
  (\<^verbatim>\<open>$1\<close> for bind index 0), with brackets as identifier quotes.\<close>

fun decimal :: "nat \<Rightarrow> string" where
  "decimal n = (if n < 10 then [''0123456789'' ! n]
                else decimal (n div 10) @ [''0123456789'' ! (n mod 10)])"

declare decimal.simps [simp del]

definition exampleDialect :: Dialect where
  "exampleDialect =
     \<lparr> QuoteField = (\<lambda>f. ''['' @ f @ '']''),
       BindVar = (\<lambda>i. ''$'' @ decimal (i + 1)),
       QuotedTableForQuery = (\<lambda>schema table.
          if schema = [] then ''['' @ table @ '']''
          else schema @ ''.'' @ ''['' @ table @ '']'') \<rparr>"

section \<open>The join-capable plan (query_plans.go)\<close>

subsection \<open>Column resolution (lines 230-287)\<close>

record 'a fieldColumnMap =
  addr :: 'a
  column :: ColumnMap
  quotedTable :: string
  quotedColumn :: string

type_synonym 'a structColumnMap = "'a fieldColumnMap list"

fun fieldMapForPointer :: "'a structColumnMap \<Rightarrow> 'a \<Rightarrow> error + 'a fieldColumnMap" where
  "fieldMapForPointer [] fieldPtr = Inl errNoField"
| "fieldMapForPointer (fieldMap # structMap) fieldPtr =
     (if addr fieldMap = fieldPtr
      then (if Transient (column fieldMap) then Inl errTransient else Inr fieldMap)
      else fieldMapForPointer structMap fieldPtr)"

definition columnForPointer :: "'a structColumnMap \<Rightarrow> 'a \<Rightarrow> error + string" where
  "columnForPointer structMap fieldPtr =
     (case fieldMapForPointer structMap fieldPtr of
        Inl err \<Rightarrow> Inl err
      | Inr fieldMap \<Rightarrow> Inr (quotedColumn fieldMap))"

definition tableColumnForPointer :: "'a structColumnMap \<Rightarrow> 'a \<Rightarrow> error + string" where
  "tableColumnForPointer structMap fieldPtr =
     (case fieldMapForPointer structMap fieldPtr of
        Inl err \<Rightarrow> Inl err
      | Inr fieldMap \<Rightarrow> Inr (quotedTable fieldMap @ ''.'' @ quotedColumn fieldMap))"

subsection \<open>Building the column map by reflection (lines 359-408)\<close>

text \<open>
  What \<^verbatim>\<open>reflect\<close> shows of the struct a target points to: its fields in order. A field
  that is not anonymous has a name, a package path (empty when exported) and an address;
  an anonymous field is an embedded struct or a non-nil pointer to one (\<open>Embedded\<close>, with
  that struct's fields), or anything else (\<open>EmbeddedInvalid\<close>: a nil pointer, a type that
  is not a struct), on which \<^verbatim>\<open>value.Type()\<close> or \<^verbatim>\<open>value.NumField()\<close> panics.
\<close>

datatype 'a StructField =
    Field string string 'a
  | Embedded "'a StructField list"
  | EmbeddedInvalid

text \<open>Modelled from the spec: \<^verbatim>\<open>TableMap.ColMap\<close>, of the table metadata provider, is declared
  outside src/; it is "a lookup from struct-field name to column descriptor", and it panics
  when the table has no such column (the comment in \<^verbatim>\<open>ColumnForPointer\<close>, query.go line
  1016). \<open>None\<close> is the panic.\<close>

definition ColMap :: "TableMap \<Rightarrow> string \<Rightarrow> ColumnMap option" where
  "ColMap t name = find (\<lambda>col. fieldName col = name) (columns t)"

text \<open>\<^verbatim>\<open>mapColumns(table, value)\<close> on the fields of \<^verbatim>\<open>value.Elem()\<close>; the third argument
  and the result are \<^verbatim>\<open>plan.colMap\<close>. \<open>None\<close> is a panic.\<close>

fun mapColumns :: "TableMap \<Rightarrow> 'a StructField list \<Rightarrow> 'a structColumnMap
      \<Rightarrow> 'a structColumnMap option" where
  "mapColumns t [] colMap = Some colMap"
| "mapColumns t (Embedded flds # rest) colMap =
     (case mapColumns t flds colMap of
        None \<Rightarrow> None
      | Some colMap' \<Rightarrow> mapColumns t rest colMap')"
| "mapColumns t (EmbeddedInvalid # rest) colMap = None"
| "mapColumns t (Field name pkgPath fieldAddr # rest) colMap =
     (if pkgPath = []
      then (case ColMap t name of
              None \<Rightarrow> None
            | Some col \<Rightarrow>
                mapColumns t rest
                  (colMap @ [\<lparr> addr = fieldAddr, column = col,
                      quotedTable = QuotedTableForQuery (dbmap_Dialect t) (SchemaName t) (TableName t),
                      quotedColumn = QuoteField (dbmap_Dialect t) (ColumnName col) \<rparr>]))
      else mapColumns t rest colMap)"

text \<open>A target as \<^verbatim>\<open>reflect.ValueOf\<close> shows it: a pointer to a struct (with the struct's
  type name and fields), or anything else.\<close>

datatype 'a Target = StructPtr string "'a StructField list" | NotStructPtr

definition errTarget :: error where
  "errTarget = New ''gorp: Cannot create query plan - target value must be a pointer to a struct''"

text \<open>\<^verbatim>\<open>mapTable\<close>; \<open>tableFor\<close> is \<^verbatim>\<open>plan.dbMap.tableFor(type, false)\<close>, of the table
  registry. The result is the returned pair with the updated \<^verbatim>\<open>plan.colMap\<close>.\<close>

definition mapTable :: "(string \<Rightarrow> error + TableMap) \<Rightarrow> 'a Target \<Rightarrow> 'a structColumnMap
      \<Rightarrow> ((error + TableMap) \<times> 'a structColumnMap) option" where
  "mapTable tableFor targetVal colMap =
     (case targetVal of
        NotStructPtr \<Rightarrow> Some (Inl errTarget, colMap)
      | StructPtr typeName flds \<Rightarrow>
          (case tableFor typeName of
             Inl err \<Rightarrow> Some (Inl err, colMap)
           | Inr targetTable \<Rightarrow>
               (case mapColumns targetTable flds colMap of
                  None \<Rightarrow> None
                | Some colMap' \<Rightarrow> Some (Inr targetTable, colMap'))))"

subsection \<open>The plan and its builder methods (lines 289-546)\<close>

text \<open>An argument of the statement (\<^verbatim>\<open>interface{}\<close>): a value the caller passed, or the
  \<^verbatim>\<open>int64\<close> limit or offset that \<^verbatim>\<open>selectQuery\<close> appends itself.\<close>

datatype 'v iface = Val 'v | Int64 int

text \<open>
  query_plans.go uses \<^verbatim>\<open>Filter\<close>, \<^verbatim>\<open>andFilter\<close> and the filter constructors without defining
  them; they are taken from query.go (above), whose \<^verbatim>\<open>Where\<close> methods call
  \<^verbatim>\<open>structMap.columnForPointer\<close>, a method query_plans.go defines. \<^verbatim>\<open>MultiFilter\<close> and
  \<^verbatim>\<open>joinFilter\<close> are defined in neither file.
\<close>

text \<open>
  Modelled from the spec: \<^verbatim>\<open>joinFilter\<close> and \<^verbatim>\<open>MultiFilter\<close>, declared outside src/. A join
  clause is "table + its own ON-filter", and comparison calls in the join view "populate the
  join's own ON-clause": a \<open>joinFilter\<close> is the quoted table (the field
  \<^verbatim>\<open>quotedJoinTable\<close> that \<^verbatim>\<open>Join\<close> sets) and the filters added so far; a \<open>MultiFilter\<close> is
  a filter with \<^verbatim>\<open>Add\<close>, and \<^verbatim>\<open>plan.filters\<close> holds nil, an \<^verbatim>\<open>*andFilter\<close> or a
  \<^verbatim>\<open>*joinFilter\<close>. How a \<open>joinFilter\<close> renders (\<^verbatim>\<open>Where\<close>, \<^verbatim>\<open>JoinClause\<close>) is not
  modelled: the two methods are parameters (\<open>joinFilterMethods\<close>) of every function that
  calls them.
\<close>

record ('a, 'v) joinFilter =
  quotedJoinTable :: string
  onFilters :: "('a, 'v) Filter list"

record ('a, 'v) joinFilterMethods =
  join_Where :: "('a, 'v) joinFilter \<Rightarrow> 'a structColumnMap \<Rightarrow> Dialect \<Rightarrow> nat
      \<Rightarrow> error + (string \<times> 'v list)"
  join_JoinClause :: "('a, 'v) joinFilter \<Rightarrow> 'a structColumnMap \<Rightarrow> Dialect \<Rightarrow> nat
      \<Rightarrow> error + (string \<times> 'v list)"

datatype ('a, 'v) MultiFilter =
    MF_nil
  | MF_and "('a, 'v) Filter list"
  | MF_join "('a, 'v) joinFilter"

text \<open>\<^verbatim>\<open>plan.filters.Add(filters...)\<close> and \<^verbatim>\<open>plan.filters.Where(...)\<close>; a method call on the
  nil interface panics (\<open>None\<close>).\<close>

definition MultiFilter_Add :: "('a, 'v) MultiFilter \<Rightarrow> ('a, 'v) Filter list
      \<Rightarrow> ('a, 'v) MultiFilter option" where
  "MultiFilter_Add mf newFilters =
     (case mf of
        MF_nil \<Rightarrow> None
      | MF_and subFilters \<Rightarrow> Some (MF_and (subFilters @ newFilters))
      | MF_join j \<Rightarrow> Some (MF_join (j\<lparr>onFilters := onFilters j @ newFilters\<rparr>)))"

definition MultiFilter_Where :: "('a, 'v) joinFilterMethods \<Rightarrow> ('a, 'v) MultiFilter
      \<Rightarrow> 'a structColumnMap \<Rightarrow> Dialect \<Rightarrow> nat \<Rightarrow> (error + (string \<times> 'v list)) option" where
  "MultiFilter_Where jm mf structMap dialect startBindIdx =
     (case mf of
        MF_nil \<Rightarrow> None
      | MF_and subFilters \<Rightarrow>
          Some (Where (columnForPointer structMap) dialect startBindIdx (andFilter subFilters))
      | MF_join j \<Rightarrow> Some (join_Where jm j structMap dialect startBindIdx))"

text \<open>The fields of \<^verbatim>\<open>QueryPlan\<close> that the builder reads or writes. \<^verbatim>\<open>table\<close> is a pointer:
  \<open>None\<close> is nil (a plan whose target could not be mapped). \<^verbatim>\<open>dbMap\<close>, \<^verbatim>\<open>executor\<close> and
  \<^verbatim>\<open>target\<close> are arguments of the functions that use them.\<close>

record ('a, 'v) QueryPlan =
  Errors :: "error list"
  table :: "TableMap option"
  colMap :: "'a structColumnMap"
  joins :: "('a, 'v iface) joinFilter list"
  assignCols :: "string list"
  assignBindVars :: "string list"
  filters :: "('a, 'v iface) MultiFilter"
  orderBy :: "string list"
  groupBy :: "string list"
  limit :: int
  offset :: int
  args :: "'v iface list"

definition emptyPlan :: "('a, 'v) QueryPlan" where
  "emptyPlan = \<lparr> Errors = [], table = None, colMap = [], joins = [], assignCols = [],
     assignBindVars = [], filters = MF_nil, orderBy = [], groupBy = [], limit = 0,
     offset = 0, args = [] \<rparr>"

definition query :: "(string \<Rightarrow> error + TableMap) \<Rightarrow> 'a Target \<Rightarrow> ('a, 'v) QueryPlan option" where
  "query tableFor target =
     (case mapTable tableFor target [] of
        None \<Rightarrow> None
      | Some (Inl err, cm) \<Rightarrow> Some (emptyPlan\<lparr>Errors := [err], colMap := cm\<rparr>)
      | Some (Inr targetTable, cm) \<Rightarrow> Some (emptyPlan\<lparr>table := Some targetTable, colMap := cm\<rparr>))"

text \<open>\<^verbatim>\<open>AssignQueryPlan.Assign\<close> (lines 844-854); \<^verbatim>\<open>QueryPlan.Assign\<close> wraps the same plan
  pointer and calls it. The wrappers \<^verbatim>\<open>JoinQueryPlan\<close>, \<^verbatim>\<open>AssignQueryPlan\<close> and
  \<^verbatim>\<open>AssignJoinQueryPlan\<close> hold the plan's pointer and forward every call, so one model
  function stands for a method and its wrappers.\<close>

definition Assign :: "('a, 'v) QueryPlan \<Rightarrow> 'a \<Rightarrow> 'v iface \<Rightarrow> ('a, 'v) QueryPlan option" where
  "Assign plan fieldPtr v =
     (case columnForPointer (colMap plan) fieldPtr of
        Inl err \<Rightarrow> Some (plan\<lparr>Errors := Errors plan @ [err]\<rparr>)
      | Inr col \<Rightarrow>
          (case table plan of
             None \<Rightarrow> None
           | Some t \<Rightarrow>
               Some (plan\<lparr>assignCols := assignCols plan @ [col],
                       assignBindVars := assignBindVars plan
                          @ [BindVar (dbmap_Dialect t) (length (args plan))],
                       args := args plan @ [v]\<rparr>)))"

definition storeJoin :: "('a, 'v) QueryPlan \<Rightarrow> ('a, 'v) QueryPlan" where
  "storeJoin plan =
     (case filters plan of
        MF_join lastJoinFilter \<Rightarrow>
          plan\<lparr>joins := joins plan @ [lastJoinFilter], filters := MF_nil\<rparr>
      | _ \<Rightarrow> plan)"

text \<open>\<^verbatim>\<open>Join\<close>: when \<^verbatim>\<open>mapTable\<close> fails the error is appended and then \<^verbatim>\<open>table.dbmap\<close>
  dereferences the nil table, a panic.\<close>

definition Join :: "(string \<Rightarrow> error + TableMap) \<Rightarrow> ('a, 'v) QueryPlan \<Rightarrow> 'a Target
      \<Rightarrow> ('a, 'v) QueryPlan option" where
  "Join tableFor plan target =
     (let plan1 = storeJoin plan in
      case mapTable tableFor target (colMap plan1) of
        None \<Rightarrow> None
      | Some (Inl err, cm) \<Rightarrow> None
      | Some (Inr t, cm) \<Rightarrow>
          Some (plan1\<lparr>colMap := cm,
                  filters := MF_join \<lparr> quotedJoinTable =
                       QuotedTableForQuery (dbmap_Dialect t) (SchemaName t) (TableName t),
                     onFilters = [] \<rparr>\<rparr>))"

definition plan_Filter :: "('a, 'v) QueryPlan \<Rightarrow> ('a, 'v iface) Filter list
      \<Rightarrow> ('a, 'v) QueryPlan option" where
  "plan_Filter plan newFilters =
     (case MultiFilter_Add (filters plan) newFilters of
        None \<Rightarrow> None
      | Some mf \<Rightarrow> Some (plan\<lparr>filters := mf\<rparr>))"

definition plan_On :: "('a, 'v) QueryPlan \<Rightarrow> ('a, 'v iface) Filter list
      \<Rightarrow> ('a, 'v) QueryPlan option" where
  "plan_On plan newFilters = plan_Filter plan newFilters"

definition plan_Where :: "('a, 'v) QueryPlan \<Rightarrow> ('a, 'v iface) Filter list
      \<Rightarrow> ('a, 'v) QueryPlan option" where
  "plan_Where plan newFilters = plan_Filter ((storeJoin plan)\<lparr>filters := MF_and []\<rparr>) newFilters"

definition plan_Equal :: "('a, 'v) QueryPlan \<Rightarrow> 'a \<Rightarrow> 'v iface \<Rightarrow> ('a, 'v) QueryPlan option" where
  "plan_Equal plan fieldPtr v = plan_Filter plan [Equal fieldPtr v]"

definition plan_NotEqual :: "('a, 'v) QueryPlan \<Rightarrow> 'a \<Rightarrow> 'v iface \<Rightarrow> ('a, 'v) QueryPlan option" where
  "plan_NotEqual plan fieldPtr v = plan_Filter plan [NotEqual fieldPtr v]"

definition plan_Less :: "('a, 'v) QueryPlan \<Rightarrow> 'a \<Rightarrow> 'v iface \<Rightarrow> ('a, 'v) QueryPlan option" where
  "plan_Less plan fieldPtr v = plan_Filter plan [Less fieldPtr v]"

definition plan_LessOrEqual :: "('a, 'v) QueryPlan \<Rightarrow> 'a \<Rightarrow> 'v iface \<Rightarrow> ('a, 'v) QueryPlan option" where
  "plan_LessOrEqual plan fieldPtr v = plan_Filter plan [LessOrEqual fieldPtr v]"

definition plan_Greater :: "('a, 'v) QueryPlan \<Rightarrow> 'a \<Rightarrow> 'v iface \<Rightarrow> ('a, 'v) QueryPlan option" where
  "plan_Greater plan fieldPtr v = plan_Filter plan [Greater fieldPtr v]"

definition plan_GreaterOrEqual :: "('a, 'v) QueryPlan \<Rightarrow> 'a \<Rightarrow> 'v iface \<Rightarrow> ('a, 'v) QueryPlan option" where
  "plan_GreaterOrEqual plan fieldPtr v = plan_Filter plan [GreaterOrEqual fieldPtr v]"

definition plan_Null :: "('a, 'v) QueryPlan \<Rightarrow> 'a \<Rightarrow> ('a, 'v) QueryPlan option" where
  "plan_Null plan fieldPtr = plan_Filter plan [Null fieldPtr]"

definition plan_NotNull :: "('a, 'v) QueryPlan \<Rightarrow> 'a \<Rightarrow> ('a, 'v) QueryPlan option" where
  "plan_NotNull plan fieldPtr = plan_Filter plan [NotNull fieldPtr]"

text \<open>
  \<^verbatim>\<open>strings.ToLower\<close>, on the bytes \<^verbatim>\<open>A\<close> to \<^verbatim>\<open>Z\<close>. Go also maps letters outside ASCII; none
  of them maps to one of the letters of \<^verbatim>\<open>asc\<close> and \<^verbatim>\<open>desc\<close>, and a byte outside ASCII stays
  one here, so the \<^verbatim>\<open>switch\<close> of \<^verbatim>\<open>OrderBy\<close> takes the same branch for every string.
\<close>

definition toLower_byte :: "char \<Rightarrow> char" where
  "toLower_byte c =
     (case map_of (zip ''ABCDEFGHIJKLMNOPQRSTUVWXYZ'' ''abcdefghijklmnopqrstuvwxyz'') c of
        Some l \<Rightarrow> l
      | None \<Rightarrow> c)"

definition strings_ToLower :: "string \<Rightarrow> string" where
  "strings_ToLower s = map toLower_byte s"

definition errOrderDirection :: error where
  "errOrderDirection =
     New (''gorp: Order by direction must be empty string, '' @ [CHR 0x22] @ ''asc''
          @ [CHR 0x22] @ '', or '' @ [CHR 0x22] @ ''desc'' @ [CHR 0x22])"

definition OrderBy :: "('a, 'v) QueryPlan \<Rightarrow> 'a \<Rightarrow> string \<Rightarrow> ('a, 'v) QueryPlan" where
  "OrderBy plan fieldPtr direction =
     (case tableColumnForPointer (colMap plan) fieldPtr of
        Inl err \<Rightarrow> plan\<lparr>Errors := Errors plan @ [err]\<rparr>
      | Inr col \<Rightarrow>
          if strings_ToLower direction = ''asc'' \<or> strings_ToLower direction = ''desc''
          then plan\<lparr>orderBy := orderBy plan @ [col]\<rparr>
          else if strings_ToLower direction = []
          then plan\<lparr>orderBy := orderBy plan @ [col]\<rparr>
          else plan\<lparr>Errors := Errors plan @ [errOrderDirection]\<rparr>)"

definition GroupBy :: "('a, 'v) QueryPlan \<Rightarrow> 'a \<Rightarrow> ('a, 'v) QueryPlan" where
  "GroupBy plan fieldPtr =
     (case tableColumnForPointer (colMap plan) fieldPtr of
        Inl err \<Rightarrow> plan\<lparr>Errors := Errors plan @ [err]\<rparr>
      | Inr col \<Rightarrow> plan\<lparr>groupBy := groupBy plan @ [col]\<rparr>)"

definition Limit :: "('a, 'v) QueryPlan \<Rightarrow> int \<Rightarrow> ('a, 'v) QueryPlan" where
  "Limit plan n = plan\<lparr>limit := n\<rparr>"

definition Offset :: "('a, 'v) QueryPlan \<Rightarrow> int \<Rightarrow> ('a, 'v) QueryPlan" where
  "Offset plan n = plan\<lparr>offset := n\<rparr>"

subsection \<open>Rendering and the terminal calls (lines 548-784)\<close>

definition whereClause :: "('a, 'v iface) joinFilterMethods \<Rightarrow> ('a, 'v) QueryPlan
      \<Rightarrow> ((error + string) \<times> ('a, 'v) QueryPlan) option" where
  "whereClause jm plan =
     (case table plan of
        None \<Rightarrow> None
      | Some t \<Rightarrow>
          (case MultiFilter_Where jm (filters plan) (colMap plan) (dbmap_Dialect t)
                  (length (args plan)) of
             None \<Rightarrow> None
           | Some (Inl err) \<Rightarrow> Some (Inl err, plan)
           | Some (Inr (wh, whereArgs)) \<Rightarrow>
               if wh \<noteq> [] then Some (Inr ('' where '' @ wh), plan\<lparr>args := args plan @ whereArgs\<rparr>)
               else Some (Inr [], plan)))"

text \<open>The loop of \<^verbatim>\<open>selectJoinClause\<close>: the buffer and \<^verbatim>\<open>plan.args\<close> are threaded; an error
  leaves the arguments of the joins rendered before it in \<^verbatim>\<open>plan.args\<close>.\<close>

fun selectJoinClause_loop :: "('a, 'v) joinFilterMethods \<Rightarrow> 'a structColumnMap \<Rightarrow> Dialect
      \<Rightarrow> string \<Rightarrow> 'v list \<Rightarrow> ('a, 'v) joinFilter list \<Rightarrow> (error + string) \<times> 'v list" where
  "selectJoinClause_loop jm cm dialect buffer as [] = (Inr buffer, as)"
| "selectJoinClause_loop jm cm dialect buffer as (j # js) =
     (case join_JoinClause jm j cm dialect (length as) of
        Inl err \<Rightarrow> (Inl err, as)
      | Inr (joinClause, joinArgs) \<Rightarrow>
          selectJoinClause_loop jm cm dialect (buffer @ joinClause) (as @ joinArgs) js)"

definition selectJoinClause :: "('a, 'v iface) joinFilterMethods \<Rightarrow> ('a, 'v) QueryPlan
      \<Rightarrow> ((error + string) \<times> ('a, 'v) QueryPlan) option" where
  "selectJoinClause jm plan =
     (if joins plan = [] then Some (Inr [], plan)
      else case table plan of
        None \<Rightarrow> None
      | Some t \<Rightarrow>
          (case selectJoinClause_loop jm (colMap plan) (dbmap_Dialect t) [] (args plan)
                  (joins plan) of
             (r, as) \<Rightarrow> Some (r, plan\<lparr>args := as\<rparr>)))"

text \<open>The loops of \<^verbatim>\<open>selectQuery\<close> over the table's columns, the order-by list and the
  group-by list; \<open>index\<close> is the loop index.\<close>

fun selectColumns :: "Dialect \<Rightarrow> string \<Rightarrow> nat \<Rightarrow> ColumnMap list \<Rightarrow> string" where
  "selectColumns dialect quotedT index [] = []"
| "selectColumns dialect quotedT index (col # cols) =
     (if \<not> Transient col
      then (if index \<noteq> 0 then '','' else []) @ quotedT @ ''.''
             @ QuoteField dialect (ColumnName col)
      else [])
     @ selectColumns dialect quotedT (Suc index) cols"

fun orderBy_loop :: "nat \<Rightarrow> string list \<Rightarrow> string" where
  "orderBy_loop index [] = []"
| "orderBy_loop index (ob # obs) =
     (if index = 0 then '' order by '' else '', '') @ ob @ orderBy_loop (Suc index) obs"

fun groupBy_loop :: "nat \<Rightarrow> string list \<Rightarrow> string" where
  "groupBy_loop index [] = []"
| "groupBy_loop index (gb # gbs) =
     (if index = 0 then '' group by '' else '', '') @ gb @ groupBy_loop (Suc index) gbs"

definition selectQuery :: "('a, 'v iface) joinFilterMethods \<Rightarrow> ('a, 'v) QueryPlan
      \<Rightarrow> ((error + string) \<times> ('a, 'v) QueryPlan) option" where
  "selectQuery jm plan =
     (case Errors plan of
        e # es \<Rightarrow> Some (Inl e, plan)
      | [] \<Rightarrow>
     (case table plan of
        None \<Rightarrow> None
      | Some t \<Rightarrow>
     (let dialect = dbmap_Dialect t;
          quotedT = QuotedTableForQuery dialect (SchemaName t) (TableName t);
          buffer1 = ''select '' @ selectColumns dialect quotedT 0 (columns t)
                      @ '' from '' @ quotedT
      in case selectJoinClause jm plan of
        None \<Rightarrow> None
      | Some (Inl err, plan1) \<Rightarrow> Some (Inl err, plan1)
      | Some (Inr joinClause, plan1) \<Rightarrow>
     (case whereClause jm plan1 of
        None \<Rightarrow> None
      | Some (Inl err, plan2) \<Rightarrow> Some (Inl err, plan2)
      | Some (Inr wh, plan2) \<Rightarrow>
     (let buffer2 = buffer1 @ joinClause @ wh @ orderBy_loop 0 (orderBy plan2)
                      @ groupBy_loop 0 (groupBy plan2);
          (buffer3, plan3) =
             (if offset plan2 > 0
              then (buffer2 @ '' offset '' @ BindVar dialect (length (args plan2)),
                    plan2\<lparr>args := args plan2 @ [Int64 (offset plan2)]\<rparr>)
              else (buffer2, plan2));
          (buffer4, plan4) =
             (if limit plan3 > 0
              then (buffer3 @ '' fetch next ('' @ BindVar dialect (length (args plan3))
                      @ '') rows only'',
                    plan3\<lparr>args := args plan3 @ [Int64 (limit plan3)]\<rparr>)
              else (buffer3, plan3))
      in Some (Inr buffer4, plan4))))))"

text \<open>
  The executor collaborator. \<^verbatim>\<open>Select\<close> hands back a result list and an error;
  \<^verbatim>\<open>Exec\<close> hands back an error or a \<^verbatim>\<open>sql.Result\<close>, of which the plan reads
  \<^verbatim>\<open>RowsAffected()\<close>, itself an error or a count. A terminal call returns what the Go
  method returns, the plan as the call left it, and the executor calls it made (at most
  one); \<open>None\<close> is a panic.
\<close>

record ('v, 'r) SqlExecutor =
  exec_Select :: "string \<Rightarrow> 'v list \<Rightarrow> 'r list \<times> error option"
  exec_Exec :: "string \<Rightarrow> 'v list \<Rightarrow> error + (error + int)"

datatype 'v executorCall = SelectCall string "'v list" | ExecCall string "'v list"

definition Select :: "('a, 'v iface) joinFilterMethods \<Rightarrow> ('v iface, 'r) SqlExecutor
      \<Rightarrow> ('a, 'v) QueryPlan
      \<Rightarrow> (('r list \<times> error option) \<times> ('a, 'v) QueryPlan \<times> 'v iface executorCall list) option" where
  "Select jm executor plan =
     (case selectQuery jm plan of
        None \<Rightarrow> None
      | Some (Inl err, plan') \<Rightarrow> Some (([], Some err), plan', [])
      | Some (Inr q, plan') \<Rightarrow>
          Some (exec_Select executor q (args plan'), plan', [SelectCall q (args plan')]))"

text \<open>The loops of \<^verbatim>\<open>Insert\<close> (\<^verbatim>\<open>if i > 0\<close> a comma) and of \<^verbatim>\<open>Update\<close>, which reads
  \<^verbatim>\<open>plan.assignBindVars[i]\<close> and panics when the index is out of range.\<close>

fun commaList_loop :: "nat \<Rightarrow> string list \<Rightarrow> string" where
  "commaList_loop i [] = []"
| "commaList_loop i (s # ss) = (if i > 0 then '', '' else []) @ s @ commaList_loop (Suc i) ss"

fun setList_loop :: "nat \<Rightarrow> string list \<Rightarrow> string list \<Rightarrow> string option" where
  "setList_loop i [] bindVars = Some []"
| "setList_loop i (col # cols) bindVars =
     (if i < length bindVars
      then (case setList_loop (Suc i) cols bindVars of
              None \<Rightarrow> None
            | Some rest \<Rightarrow>
                Some ((if i > 0 then '', '' else []) @ col @ ''='' @ bindVars ! i @ rest))
      else None)"

definition Insert :: "('v iface, 'r) SqlExecutor \<Rightarrow> ('a, 'v) QueryPlan
      \<Rightarrow> (error option \<times> ('a, 'v) QueryPlan \<times> 'v iface executorCall list) option" where
  "Insert executor plan =
     (case Errors plan of
        e # es \<Rightarrow> Some (Some e, plan, [])
      | [] \<Rightarrow>
     (case table plan of
        None \<Rightarrow> None
      | Some t \<Rightarrow>
     (let q = ''insert into ''
                @ QuotedTableForQuery (dbmap_Dialect t) (SchemaName t) (TableName t)
                @ '' ('' @ commaList_loop 0 (assignCols plan)
                @ '') values ('' @ commaList_loop 0 (assignBindVars plan) @ '')''
      in Some ((case exec_Exec executor q (args plan) of
                  Inl err \<Rightarrow> Some err
                | Inr res \<Rightarrow> None),
               plan, [ExecCall q (args plan)]))))"

text \<open>The loop of \<^verbatim>\<open>joinFromAndWhereClause\<close>, threading \<^verbatim>\<open>fromSlice\<close>, \<^verbatim>\<open>whereBuffer\<close> and
  \<^verbatim>\<open>plan.args\<close>.\<close>

fun joinFromAndWhereClause_loop :: "('a, 'v) joinFilterMethods \<Rightarrow> 'a structColumnMap \<Rightarrow> Dialect
      \<Rightarrow> string list \<Rightarrow> string \<Rightarrow> 'v list \<Rightarrow> ('a, 'v) joinFilter list
      \<Rightarrow> (error + (string \<times> string)) \<times> 'v list" where
  "joinFromAndWhereClause_loop jm cm dialect fromSlice whereBuffer as [] =
     (Inr (strings_Join fromSlice '', '', whereBuffer), as)"
| "joinFromAndWhereClause_loop jm cm dialect fromSlice whereBuffer as (j # js) =
     (case join_Where jm j cm dialect (length as) of
        Inl err \<Rightarrow> (Inl err, as)
      | Inr (wh, whereArgs) \<Rightarrow>
          joinFromAndWhereClause_loop jm cm dialect (fromSlice @ [quotedJoinTable j])
            (whereBuffer @ wh) (as @ whereArgs) js)"

definition joinFromAndWhereClause :: "('a, 'v iface) joinFilterMethods \<Rightarrow> ('a, 'v) QueryPlan
      \<Rightarrow> ((error + (string \<times> string)) \<times> ('a, 'v) QueryPlan) option" where
  "joinFromAndWhereClause jm plan =
     (if joins plan = [] then Some (Inr ([], []), plan)
      else case table plan of
        None \<Rightarrow> None
      | Some t \<Rightarrow>
          (case joinFromAndWhereClause_loop jm (colMap plan) (dbmap_Dialect t) [] []
                  (args plan) (joins plan) of
             (r, as) \<Rightarrow> Some (r, plan\<lparr>args := as\<rparr>)))"

text \<open>What \<^verbatim>\<open>Update\<close> and \<^verbatim>\<open>Delete\<close> do with the statement once it is rendered.\<close>

definition execRows :: "('v, 'r) SqlExecutor \<Rightarrow> string \<Rightarrow> 'v list \<Rightarrow> int \<times> error option" where
  "execRows executor q as =
     (case exec_Exec executor q as of
        Inl err \<Rightarrow> (- 1, Some err)
      | Inr (Inl err) \<Rightarrow> (- 1, Some err)
      | Inr (Inr rows) \<Rightarrow> (rows, None))"

definition Update :: "('a, 'v iface) joinFilterMethods \<Rightarrow> ('v iface, 'r) SqlExecutor
      \<Rightarrow> ('a, 'v) QueryPlan
      \<Rightarrow> ((int \<times> error option) \<times> ('a, 'v) QueryPlan \<times> 'v iface executorCall list) option" where
  "Update jm executor plan =
     (case Errors plan of
        e # es \<Rightarrow> Some ((- 1, Some e), plan, [])
      | [] \<Rightarrow>
     (case table plan of
        None \<Rightarrow> None
      | Some t \<Rightarrow>
     (case setList_loop 0 (assignCols plan) (assignBindVars plan) of
        None \<Rightarrow> None
      | Some setList \<Rightarrow>
     (let buffer1 = ''update ''
                @ QuotedTableForQuery (dbmap_Dialect t) (SchemaName t) (TableName t)
                @ '' set '' @ setList
      in case joinFromAndWhereClause jm plan of
        None \<Rightarrow> None
      | Some (Inl err, plan1) \<Rightarrow> Some ((- 1, None), plan1, [])
      | Some (Inr (joinTables, joinWhereClause), plan1) \<Rightarrow>
     (let buffer2 = (if joinTables \<noteq> [] then buffer1 @ '' from '' @ joinTables else buffer1)
      in case whereClause jm plan1 of
        None \<Rightarrow> None
      | Some (Inl err, plan2) \<Rightarrow> Some ((- 1, Some err), plan2, [])
      | Some (Inr wh, plan2) \<Rightarrow>
     (let wh' = (if joinWhereClause \<noteq> []
                 then (if wh = [] then '' where'' else wh) @ '' '' @ joinWhereClause
                 else wh);
          q = buffer2 @ wh'
      in Some (execRows executor q (args plan2), plan2, [ExecCall q (args plan2)])))))))"

definition Delete :: "('a, 'v iface) joinFilterMethods \<Rightarrow> ('v iface, 'r) SqlExecutor
      \<Rightarrow> ('a, 'v) QueryPlan
      \<Rightarrow> ((int \<times> error option) \<times> ('a, 'v) QueryPlan \<times> 'v iface executorCall list) option" where
  "Delete jm executor plan =
     (case Errors plan of
        e # es \<Rightarrow> Some ((- 1, Some e), plan, [])
      | [] \<Rightarrow>
     (case table plan of
        None \<Rightarrow> None
      | Some t \<Rightarrow>
     (let buffer1 = ''delete from ''
                @ QuotedTableForQuery (dbmap_Dialect t) (SchemaName t) (TableName t)
      in case joinFromAndWhereClause jm plan of
        None \<Rightarrow> None
      | Some (Inl err, plan1) \<Rightarrow> Some ((- 1, Some err), plan1, [])
      | Some (Inr (joinTables, joinWhereClause), plan1) \<Rightarrow>
     (let buffer2 = (if joinTables \<noteq> [] then buffer1 @ '' using '' @ joinTables else buffer1)
      in case whereClause jm plan1 of
        None \<Rightarrow> None
      | Some (Inl err, plan2) \<Rightarrow> Some ((- 1, Some err), plan2, [])
      | Some (Inr wh, plan2) \<Rightarrow>
     (let wh' = (if joinWhereClause \<noteq> []
                 then (if wh = [] then '' where'' else wh) @ '' '' @ joinWhereClause
                 else wh);
          q = buffer2 @ wh'
      in Some (execRows executor q (args plan2), plan2, [ExecCall q (args plan2)]))))))"

section \<open>The plans of query.go\<close>

text \<open>The column loop of \<^verbatim>\<open>Select\<close>, the same in the three snapshots of query.go (lines
  609-616, 1136-1143 and 1635-1642): as in query_plans.go, without the table prefix.\<close>

fun selectColumns_q :: "Dialect \<Rightarrow> nat \<Rightarrow> ColumnMap list \<Rightarrow> string" where
  "selectColumns_q dialect index [] = []"
| "selectColumns_q dialect index (col # cols) =
     (if \<not> Transient col
      then (if index \<noteq> 0 then '','' else []) @ QuoteField dialect (ColumnName col)
      else [])
     @ selectColumns_q dialect (Suc index) cols"

text \<open>The where loop of the terminal calls of the second and third snapshot.\<close>

fun where_loop :: "nat \<Rightarrow> string list \<Rightarrow> string" where
  "where_loop index [] = []"
| "where_loop index (whereEntry # rest) =
     (if index = 0 then '' where '' else '' and '') @ whereEntry @ where_loop (Suc index) rest"

subsection \<open>Second snapshot (lines 810-1302): columns by reflection\<close>

record ('a, 'v) QueryPlan_q2 =
  Errors_q2 :: "error list"
  table_q2 :: "TableMap option"
  target_q2 :: "'a StructField list option"
  assignCols_q2 :: "string list"
  assignBindVars_q2 :: "string list"
  where_q2 :: "string list"
  orderBy_q2 :: string
  orderByDirection_q2 :: string
  groupBy_q2 :: string
  limit_q2 :: int
  offset_q2 :: int
  args_q2 :: "'v iface list"

text \<open>
  \<^verbatim>\<open>findFieldType(value, fieldPtr)\<close> on the fields of \<^verbatim>\<open>value.Elem()\<close>. The result is the
  name of the field found (\<open>Some (Some name)\<close>), nil (\<open>Some None\<close>) or a panic (\<open>None\<close>):
  \<^verbatim>\<open>fieldVal.Addr().Interface()\<close> panics on an unexported field, and \<^verbatim>\<open>value.Type()\<close> on
  what a nil embedded pointer points to. \<open>target_q2 = None\<close> is the zero
  \<^verbatim>\<open>reflect.Value\<close> of a plan whose target was refused; \<^verbatim>\<open>Elem\<close> panics on it.
\<close>

fun findFieldType :: "'a StructField list \<Rightarrow> 'a \<Rightarrow> string option option" where
  "findFieldType [] fieldPtr = Some None"
| "findFieldType (Embedded flds # rest) fieldPtr =
     (case findFieldType flds fieldPtr of
        None \<Rightarrow> None
      | Some (Some foundField) \<Rightarrow> Some (Some foundField)
      | Some None \<Rightarrow> findFieldType rest fieldPtr)"
| "findFieldType (EmbeddedInvalid # rest) fieldPtr = None"
| "findFieldType (Field name pkgPath fieldAddr # rest) fieldPtr =
     (if pkgPath \<noteq> [] then None
      else if fieldAddr = fieldPtr then Some (Some name)
      else findFieldType rest fieldPtr)"

definition errRecovered_q2 :: error where
  "errRecovered_q2 = New ''gorp: The passed in field does not seem to match a column in the applicable table''"

definition errNoFieldPtr_q2 :: error where
  "errNoFieldPtr_q2 = New ''gorp: Could not find a field matching the passed in field pointer''"

definition errNoColumn_q2 :: error where
  "errNoColumn_q2 = New ''gorp: Could not find matching column''"

definition errTransient_q2 :: error where
  "errTransient_q2 = New ''gorp: Cannot query transient column''"

definition errDirection_q2 :: error where
  "errDirection_q2 = New ''gorp: Order by direction is invalid''"

text \<open>\<^verbatim>\<open>ColumnForPointer\<close> returns \<^verbatim>\<open>(col, err)\<close>; its deferred \<^verbatim>\<open>recover\<close> turns every panic
  (of \<^verbatim>\<open>findFieldType\<close>, of \<^verbatim>\<open>ColMap\<close>, of a nil table) into an error, with \<^verbatim>\<open>col\<close> still
  nil.\<close>

definition ColumnForPointer_q2 :: "('a, 'v) QueryPlan_q2 \<Rightarrow> 'a \<Rightarrow> ColumnMap option \<times> error option" where
  "ColumnForPointer_q2 plan fieldPtr =
     (case target_q2 plan of
        None \<Rightarrow> (None, Some errRecovered_q2)
      | Some flds \<Rightarrow>
          (case findFieldType flds fieldPtr of
             None \<Rightarrow> (None, Some errRecovered_q2)
           | Some None \<Rightarrow> (None, Some errNoFieldPtr_q2)
           | Some (Some name) \<Rightarrow>
               (case table_q2 plan of
                  None \<Rightarrow> (None, Some errRecovered_q2)
                | Some t \<Rightarrow>
                    (case ColMap t name of
                       None \<Rightarrow> (None, Some errRecovered_q2)
                     | Some col \<Rightarrow> (Some col, None)))))"

definition columnOperatorString :: "('a, 'v) QueryPlan_q2 \<Rightarrow> 'a \<Rightarrow> string \<Rightarrow> (error + string) option" where
  "columnOperatorString plan fieldPtr operator =
     (case ColumnForPointer_q2 plan fieldPtr of
        (c, Some err) \<Rightarrow> Some (Inl err)
      | (None, None) \<Rightarrow> Some (Inl errNoColumn_q2)
      | (Some col, None) \<Rightarrow>
          if Transient col then Some (Inl errTransient_q2)
          else (case table_q2 plan of
                  None \<Rightarrow> None
                | Some t \<Rightarrow>
                    Some (Inr (QuoteField (dbmap_Dialect t) (ColumnName col) @ operator
                           @ BindVar (dbmap_Dialect t) (length (args_q2 plan))))))"

text \<open>\<^verbatim>\<open>addWhere\<close> (lines 1049-1056): the error branch appends the error and falls through
  to the two appends, with \<^verbatim>\<open>whereStr\<close> the empty string.\<close>

definition addWhere_q2 :: "('a, 'v) QueryPlan_q2 \<Rightarrow> 'a \<Rightarrow> string \<Rightarrow> 'v iface
      \<Rightarrow> ('a, 'v) QueryPlan_q2 option" where
  "addWhere_q2 plan fieldPtr operator v =
     (case columnOperatorString plan fieldPtr operator of
        None \<Rightarrow> None
      | Some r \<Rightarrow>
          (let (whereStr, plan1) =
                 (case r of
                    Inl err \<Rightarrow> ([], plan\<lparr>Errors_q2 := Errors_q2 plan @ [err]\<rparr>)
                  | Inr s \<Rightarrow> (s, plan))
           in Some (plan1\<lparr>where_q2 := where_q2 plan1 @ [whereStr],
                      args_q2 := args_q2 plan1 @ [v]\<rparr>)))"

definition Equal_q2 :: "('a, 'v) QueryPlan_q2 \<Rightarrow> 'a \<Rightarrow> 'v iface \<Rightarrow> ('a, 'v) QueryPlan_q2 option" where
  "Equal_q2 plan fieldPtr v = addWhere_q2 plan fieldPtr ''='' v"

definition Less_q2 :: "('a, 'v) QueryPlan_q2 \<Rightarrow> 'a \<Rightarrow> 'v iface \<Rightarrow> ('a, 'v) QueryPlan_q2 option" where
  "Less_q2 plan fieldPtr v = addWhere_q2 plan fieldPtr ''<'' v"

definition LessOrEqual_q2 :: "('a, 'v) QueryPlan_q2 \<Rightarrow> 'a \<Rightarrow> 'v iface \<Rightarrow> ('a, 'v) QueryPlan_q2 option" where
  "LessOrEqual_q2 plan fieldPtr v = addWhere_q2 plan fieldPtr ''<='' v"

definition Greater_q2 :: "('a, 'v) QueryPlan_q2 \<Rightarrow> 'a \<Rightarrow> 'v iface \<Rightarrow> ('a, 'v) QueryPlan_q2 option" where
  "Greater_q2 plan fieldPtr v = addWhere_q2 plan fieldPtr ''>'' v"

definition GreaterOrEqual_q2 :: "('a, 'v) QueryPlan_q2 \<Rightarrow> 'a \<Rightarrow> 'v iface \<Rightarrow> ('a, 'v) QueryPlan_q2 option" where
  "GreaterOrEqual_q2 plan fieldPtr v = addWhere_q2 plan fieldPtr ''>='' v"

text \<open>\<^verbatim>\<open>OrderBy\<close> (lines 1099-1108) stores the column name and the direction as given; the
  direction is checked when \<^verbatim>\<open>Select\<close> renders it (lines 1154-1165).\<close>

definition OrderBy_q2 :: "('a, 'v) QueryPlan_q2 \<Rightarrow> 'a \<Rightarrow> string \<Rightarrow> ('a, 'v) QueryPlan_q2 option" where
  "OrderBy_q2 plan fieldPtr direction =
     (case ColumnForPointer_q2 plan fieldPtr of
        (c, Some err) \<Rightarrow> Some (plan\<lparr>Errors_q2 := Errors_q2 plan @ [err]\<rparr>)
      | (None, None) \<Rightarrow> None
      | (Some col, None) \<Rightarrow>
          Some (plan\<lparr>orderBy_q2 := ColumnName col, orderByDirection_q2 := direction\<rparr>))"

definition Select_q2 :: "('v iface, 'r) SqlExecutor \<Rightarrow> ('a, 'v) QueryPlan_q2
      \<Rightarrow> (('r list \<times> error option) \<times> ('a, 'v) QueryPlan_q2 \<times> 'v iface executorCall list) option" where
  "Select_q2 executor plan =
     (case Errors_q2 plan of
        e # es \<Rightarrow> Some (([], Some e), plan, [])
      | [] \<Rightarrow>
     (case table_q2 plan of
        None \<Rightarrow> None
      | Some t \<Rightarrow>
     (let dialect = dbmap_Dialect t;
          buffer1 = ''select '' @ selectColumns_q dialect 0 (columns t) @ '' from ''
                      @ QuotedTableForQuery dialect (SchemaName t) (TableName t)
                      @ where_loop 0 (where_q2 plan);
          lower = strings_ToLower (orderByDirection_q2 plan)
      in if orderBy_q2 plan \<noteq> [] \<and> lower \<noteq> ''desc'' \<and> lower \<noteq> ''asc'' \<and> lower \<noteq> []
         then Some (([], Some errDirection_q2),
                    plan\<lparr>Errors_q2 := Errors_q2 plan @ [errDirection_q2]\<rparr>, [])
         else
     (let buffer2 = buffer1
            @ (if orderBy_q2 plan \<noteq> []
               then '' order by '' @ QuoteField dialect (orderBy_q2 plan)
                      @ (if lower = ''desc'' \<or> lower = ''asc''
                         then orderByDirection_q2 plan else [])
               else [])
            @ (if groupBy_q2 plan \<noteq> [] then '' group by '' @ groupBy_q2 plan else []);
          (buffer3, plan3) =
             (if limit_q2 plan > 0
              then (buffer2 @ '' limit '' @ BindVar dialect (length (args_q2 plan)),
                    plan\<lparr>args_q2 := args_q2 plan @ [Int64 (limit_q2 plan)]\<rparr>)
              else (buffer2, plan));
          (buffer4, plan4) =
             (if offset_q2 plan3 > 0
              then (buffer3 @ '' offset '' @ BindVar dialect (length (args_q2 plan3)),
                    plan3\<lparr>args_q2 := args_q2 plan3 @ [Int64 (offset_q2 plan3)]\<rparr>)
              else (buffer3, plan3))
      in Some (exec_Select executor buffer4 (args_q2 plan4), plan4,
               [SelectCall buffer4 (args_q2 plan4)])))))"

subsection \<open>Third snapshot (lines 1303-1801): a prebuilt column map\<close>

record 'a fieldColMap =
  addr_q3 :: 'a
  column_q3 :: ColumnMap
  quotedColumn_q3 :: string

record ('a, 'v) QueryPlan_q3 =
  Errors_q3 :: "error list"
  table_q3 :: "TableMap option"
  targetColMap_q3 :: "'a fieldColMap list"
  assignCols_q3 :: "string list"
  assignBindVars_q3 :: "string list"
  where_q3 :: "string list"
  orderBy_q3 :: "string list"
  groupBy_q3 :: "string list"
  limit_q3 :: int
  offset_q3 :: int
  args_q3 :: "'v iface list"

fun ColumnForPointer_loop :: "'a fieldColMap list \<Rightarrow> 'a \<Rightarrow> error + string" where
  "ColumnForPointer_loop [] fieldPtr = Inl errNoField"
| "ColumnForPointer_loop (fieldMap # rest) fieldPtr =
     (if addr_q3 fieldMap = fieldPtr
      then (if Transient (column_q3 fieldMap) then Inl errTransient
            else Inr (quotedColumn_q3 fieldMap))
      else ColumnForPointer_loop rest fieldPtr)"

definition ColumnForPointer_q3 :: "('a, 'v) QueryPlan_q3 \<Rightarrow> 'a \<Rightarrow> error + string" where
  "ColumnForPointer_q3 plan fieldPtr = ColumnForPointer_loop (targetColMap_q3 plan) fieldPtr"

text \<open>\<^verbatim>\<open>addWhere\<close> (lines 1540-1549): the error branch returns.\<close>

definition addWhere_q3 :: "('a, 'v) QueryPlan_q3 \<Rightarrow> 'a \<Rightarrow> string \<Rightarrow> 'v iface
      \<Rightarrow> ('a, 'v) QueryPlan_q3 option" where
  "addWhere_q3 plan fieldPtr operator v =
     (case ColumnForPointer_q3 plan fieldPtr of
        Inl err \<Rightarrow> Some (plan\<lparr>Errors_q3 := Errors_q3 plan @ [err]\<rparr>)
      | Inr col \<Rightarrow>
          (case table_q3 plan of
             None \<Rightarrow> None
           | Some t \<Rightarrow>
               Some (plan\<lparr>where_q3 := where_q3 plan
                          @ [col @ operator @ BindVar (dbmap_Dialect t) (length (args_q3 plan))],
                       args_q3 := args_q3 plan @ [v]\<rparr>)))"

definition Set_q3 :: "('a, 'v) QueryPlan_q3 \<Rightarrow> 'a \<Rightarrow> 'v iface \<Rightarrow> ('a, 'v) QueryPlan_q3 option" where
  "Set_q3 plan fieldPtr v =
     (case ColumnForPointer_q3 plan fieldPtr of
        Inl err \<Rightarrow> Some (plan\<lparr>Errors_q3 := Errors_q3 plan @ [err]\<rparr>)
      | Inr col \<Rightarrow>
          (case table_q3 plan of
             None \<Rightarrow> None
           | Some t \<Rightarrow>
               Some (plan\<lparr>assignCols_q3 := assignCols_q3 plan @ [col],
                       assignBindVars_q3 := assignBindVars_q3 plan
                          @ [BindVar (dbmap_Dialect t) (length (args_q3 plan))],
                       args_q3 := args_q3 plan @ [v]\<rparr>)))"

definition Equal_q3 :: "('a, 'v) QueryPlan_q3 \<Rightarrow> 'a \<Rightarrow> 'v iface \<Rightarrow> ('a, 'v) QueryPlan_q3 option" where
  "Equal_q3 plan fieldPtr v = addWhere_q3 plan fieldPtr ''='' v"

definition Less_q3 :: "('a, 'v) QueryPlan_q3 \<Rightarrow> 'a \<Rightarrow> 'v iface \<Rightarrow> ('a, 'v) QueryPlan_q3 option" where
  "Less_q3 plan fieldPtr v = addWhere_q3 plan fieldPtr ''<'' v"

definition LessOrEqual_q3 :: "('a, 'v) QueryPlan_q3 \<Rightarrow> 'a \<Rightarrow> 'v iface \<Rightarrow> ('a, 'v) QueryPlan_q3 option" where
  "LessOrEqual_q3 plan fieldPtr v = addWhere_q3 plan fieldPtr ''<='' v"

definition Greater_q3 :: "('a, 'v) QueryPlan_q3 \<Rightarrow> 'a \<Rightarrow> 'v iface \<Rightarrow> ('a, 'v) QueryPlan_q3 option" where
  "Greater_q3 plan fieldPtr v = addWhere_q3 plan fieldPtr ''>'' v"

definition GreaterOrEqual_q3 :: "('a, 'v) QueryPlan_q3 \<Rightarrow> 'a \<Rightarrow> 'v iface \<Rightarrow> ('a, 'v) QueryPlan_q3 option" where
  "GreaterOrEqual_q3 plan fieldPtr v = addWhere_q3 plan fieldPtr ''>='' v"

definition OrderBy_q3 :: "('a, 'v) QueryPlan_q3 \<Rightarrow> 'a \<Rightarrow> string \<Rightarrow> ('a, 'v) QueryPlan_q3" where
  "OrderBy_q3 plan fieldPtr direction =
     (case ColumnForPointer_q3 plan fieldPtr of
        Inl err \<Rightarrow> plan\<lparr>Errors_q3 := Errors_q3 plan @ [err]\<rparr>
      | Inr col \<Rightarrow>
          if strings_ToLower direction = ''asc'' \<or> strings_ToLower direction = ''desc''
          then plan\<lparr>orderBy_q3 := orderBy_q3 plan @ [col]\<rparr>
          else if strings_ToLower direction = []
          then plan\<lparr>orderBy_q3 := orderBy_q3 plan @ [col]\<rparr>
          else plan\<lparr>Errors_q3 := Errors_q3 plan @ [errOrderDirection]\<rparr>)"

definition GroupBy_q3 :: "('a, 'v) QueryPlan_q3 \<Rightarrow> 'a \<Rightarrow> ('a, 'v) QueryPlan_q3" where
  "GroupBy_q3 plan fieldPtr =
     (case ColumnForPointer_q3 plan fieldPtr of
        Inl err \<Rightarrow> plan\<lparr>Errors_q3 := Errors_q3 plan @ [err]\<rparr>
      | Inr col \<Rightarrow> plan\<lparr>groupBy_q3 := groupBy_q3 plan @ [col]\<rparr>)"

definition Limit_q3 :: "('a, 'v) QueryPlan_q3 \<Rightarrow> int \<Rightarrow> ('a, 'v) QueryPlan_q3" where
  "Limit_q3 plan n = plan\<lparr>limit_q3 := n\<rparr>"

definition Offset_q3 :: "('a, 'v) QueryPlan_q3 \<Rightarrow> int \<Rightarrow> ('a, 'v) QueryPlan_q3" where
  "Offset_q3 plan n = plan\<lparr>offset_q3 := n\<rparr>"

section \<open>Concrete inputs for the examples\<close>

text \<open>One way a \<^verbatim>\<open>joinFilter\<close> may render, used where an example needs a concrete one: its
  filters as an \<^verbatim>\<open>andFilter\<close>, and \<^verbatim>\<open>inner join t on ...\<close> as the join clause.\<close>

definition exampleJoinMethods :: "('a, 'v) joinFilterMethods" where
  "exampleJoinMethods =
     \<lparr> join_Where = (\<lambda>j structMap dialect startBindIdx.
          Where (columnForPointer structMap) dialect startBindIdx (andFilter (onFilters j))),
       join_JoinClause = (\<lambda>j structMap dialect startBindIdx.
          case Where (columnForPointer structMap) dialect startBindIdx (andFilter (onFilters j)) of
            Inl err \<Rightarrow> Inl err
          | Inr (on, as) \<Rightarrow>
              Inr ('' inner join '' @ quotedJoinTable j
                     @ (if on \<noteq> [] then '' on '' @ on else []), as)) \<rparr>"

text \<open>An executor that finds no row and reports one row affected.\<close>

definition exampleExecutor :: "('v, 'r) SqlExecutor" where
  "exampleExecutor = \<lparr> exec_Select = (\<lambda>q as. ([], None)), exec_Exec = (\<lambda>q as. Inr (Inr 1)) \<rparr>"

text \<open>A table of three columns, the last transient, and the column map of a target whose
  fields \<^verbatim>\<open>Id\<close>, \<^verbatim>\<open>Memo\<close>, \<^verbatim>\<open>Draft\<close> have the addresses 1, 2, 3.\<close>

definition invoiceTable :: TableMap where
  "invoiceTable =
     \<lparr> TableName = ''invoice'', SchemaName = [],
       columns = [\<lparr> fieldName = ''Id'', ColumnName = ''id'', Transient = False \<rparr>,
                  \<lparr> fieldName = ''Memo'', ColumnName = ''memo'', Transient = False \<rparr>,
                  \<lparr> fieldName = ''Draft'', ColumnName = ''draft'', Transient = True \<rparr>],
       dbmap_Dialect = exampleDialect \<rparr>"

definition invoiceFields :: "nat StructField list" where
  "invoiceFields = [Field ''Id'' [] 1, Field ''Memo'' [] 2, Field ''Draft'' [] 3]"

definition invoiceColMap_q1 :: "nat fieldColumnMap_q1 list" where
  "invoiceColMap_q1 =
     [\<lparr> addr_q1 = 1, column_q1 = \<lparr> fieldName = ''Id'', ColumnName = ''id'', Transient = False \<rparr>,
        quotedColumn_q1 = ''[id]'' \<rparr>,
      \<lparr> addr_q1 = 2, column_q1 = \<lparr> fieldName = ''Memo'', ColumnName = ''memo'', Transient = False \<rparr>,
        quotedColumn_q1 = ''[memo]'' \<rparr>,
      \<lparr> addr_q1 = 3, column_q1 = \<lparr> fieldName = ''Draft'', ColumnName = ''draft'', Transient = True \<rparr>,
        quotedColumn_q1 = ''[draft]'' \<rparr>]"

text \<open>The same target in query_plans.go, a second table to join, and a table registry
  that knows both.\<close>

definition personTable :: TableMap where
  "personTable =
     \<lparr> TableName = ''person'', SchemaName = [],
       columns = [\<lparr> fieldName = ''Id'', ColumnName = ''id'', Transient = False \<rparr>,
                  \<lparr> fieldName = ''Secret'', ColumnName = ''secret'', Transient = True \<rparr>],
       dbmap_Dialect = exampleDialect \<rparr>"

definition personFields :: "nat StructField list" where
  "personFields = [Field ''Id'' [] 11, Field ''Secret'' [] 12]"

definition exampleTableFor :: "string \<Rightarrow> error + TableMap" where
  "exampleTableFor typeName =
     (if typeName = ''Invoice'' then Inr invoiceTable
      else if typeName = ''Person'' then Inr personTable
      else Inl (External ''gorp: no table found for type''))"

definition invoiceColMap :: "nat structColumnMap" where
  "invoiceColMap =
     [\<lparr> addr = 1, column = \<lparr> fieldName = ''Id'', ColumnName = ''id'', Transient = False \<rparr>,
        quotedTable = ''[invoice]'', quotedColumn = ''[id]'' \<rparr>,
      \<lparr> addr = 2, column = \<lparr> fieldName = ''Memo'', ColumnName = ''memo'', Transient = False \<rparr>,
        quotedTable = ''[invoice]'', quotedColumn = ''[memo]'' \<rparr>,
      \<lparr> addr = 3, column = \<lparr> fieldName = ''Draft'', ColumnName = ''draft'', Transient = True \<rparr>,
        quotedTable = ''[invoice]'', quotedColumn = ''[draft]'' \<rparr>]"

definition invoicePlan :: "(nat, string) QueryPlan" where
  "invoicePlan = emptyPlan\<lparr>table := Some invoiceTable, colMap := invoiceColMap\<rparr>"

definition personColMap :: "nat structColumnMap" where
  "personColMap =
     [\<lparr> addr = 11, column = \<lparr> fieldName = ''Id'', ColumnName = ''id'', Transient = False \<rparr>,
        quotedTable = ''[person]'', quotedColumn = ''[id]'' \<rparr>,
      \<lparr> addr = 12, column = \<lparr> fieldName = ''Secret'', ColumnName = ''secret'', Transient = True \<rparr>,
        quotedTable = ''[person]'', quotedColumn = ''[secret]'' \<rparr>]"

text \<open>The plan of \<^verbatim>\<open>Query(inv).Assign(&inv.Memo, "x").Join(person).Equal(&person.Secret, "y").Where()\<close>.\<close>

definition joinedPlan :: "(nat, string) QueryPlan" where
  "joinedPlan = emptyPlan\<lparr>table := Some invoiceTable, colMap := invoiceColMap @ personColMap,
     joins := [\<lparr> quotedJoinTable = ''[person]'', onFilters = [Equal 12 (Val ''y'')] \<rparr>],
     assignCols := [''[memo]''], assignBindVars := [''$1''], filters := MF_and [],
     args := [Val ''x'']\<rparr>"

text \<open>The plan of the second snapshot of query.go for the same target.\<close>

definition invoicePlan_q2 :: "(nat, string) QueryPlan_q2" where
  "invoicePlan_q2 =
     \<lparr> Errors_q2 = [], table_q2 = Some invoiceTable, target_q2 = Some invoiceFields,
       assignCols_q2 = [], assignBindVars_q2 = [], where_q2 = [], orderBy_q2 = [],
       orderByDirection_q2 = [], groupBy_q2 = [], limit_q2 = 0, offset_q2 = 0, args_q2 = [] \<rparr>"

text \<open>A table whose first column is transient, and a plan for it after \<^verbatim>\<open>Where()\<close>.\<close>

definition draftFirstTable :: TableMap where
  "draftFirstTable =
     \<lparr> TableName = ''invoice'', SchemaName = [],
       columns = [\<lparr> fieldName = ''Draft'', ColumnName = ''draft'', Transient = True \<rparr>,
                  \<lparr> fieldName = ''Id'', ColumnName = ''id'', Transient = False \<rparr>,
                  \<lparr> fieldName = ''Memo'', ColumnName = ''memo'', Transient = False \<rparr>],
       dbmap_Dialect = exampleDialect \<rparr>"

definition draftFirstPlan :: "(nat, string) QueryPlan" where
  "draftFirstPlan = emptyPlan\<lparr>table := Some draftFirstTable, filters := MF_and []\<rparr>"

text \<open>The plan of \<^verbatim>\<open>Query(inv).Where().Equal(&inv.Id, "7")\<close>.\<close>

definition wherePlan :: "(nat, string) QueryPlan" where
  "wherePlan = invoicePlan\<lparr>filters := MF_and [Equal 1 (Val ''7'')]\<rparr>"

text \<open>
  For the statement of C5 (not a function of the source): the exported, named fields of a
  struct, embedded structs flattened, with their addresses, in the order in which
  \<^verbatim>\<open>mapColumns\<close> binds them.
\<close>

fun exportedFields :: "'a StructField list \<Rightarrow> (string \<times> 'a) list" where
  "exportedFields [] = []"
| "exportedFields (Embedded flds # rest) = exportedFields flds @ exportedFields rest"
| "exportedFields (EmbeddedInvalid # rest) = exportedFields rest"
| "exportedFields (Field name pkgPath fieldAddr # rest) =
     (if pkgPath = [] then [(name, fieldAddr)] else []) @ exportedFields rest"




text \<open>
  For the statement of C5 (not a function of the source): the binding set of a plan is what
  the calls of \<^verbatim>\<open>mapColumns\<close> have appended, one call by \<^verbatim>\<open>query\<close> and one by every
  \<^verbatim>\<open>Join\<close> (both through \<^verbatim>\<open>mapTable\<close>), each for a table and the fields of a target.
  \<open>mapColumnsAll\<close> runs such calls in order.
\<close>

fun mapColumnsAll :: "(TableMap \<times> 'a StructField list) list \<Rightarrow> 'a structColumnMap
      \<Rightarrow> 'a structColumnMap option" where
  "mapColumnsAll [] cm = Some cm"
| "mapColumnsAll ((t, flds) # rest) cm =
     (case mapColumns t flds cm of
        None \<Rightarrow> None
      | Some cm' \<Rightarrow> mapColumnsAll rest cm')"

text \<open>A second value of the invoice type, with its fields at the addresses 21, 22, 23.\<close>

definition secondInvoiceFields :: "nat StructField list" where
  "secondInvoiceFields = [Field ''Id'' [] 21, Field ''Memo'' [] 22, Field ''Draft'' [] 23]"

section \<open>Properties\<close>

subsection \<open>C1: a terminal call on a plan with errors\<close>

text \<open>
  C1. For every plan of query_plans.go whose error list is not empty, each of \<^verbatim>\<open>Select\<close>,
  \<^verbatim>\<open>Insert\<close>, \<^verbatim>\<open>Update\<close> and \<^verbatim>\<open>Delete\<close> returns the first error of the list (with the
  results nil, or the count -1), leaves the plan as it was and makes no executor call.
\<close>

theorem terminal_calls_return_first_error:
  assumes "Errors plan = e # es"
  shows "Select jm executor plan = Some (([], Some e), plan, [])
       \<and> Insert executor plan = Some (Some e, plan, [])
       \<and> Update jm executor plan = Some ((- 1, Some e), plan, [])
       \<and> Delete jm executor plan = Some ((- 1, Some e), plan, [])"
  using assms by (simp add: Select_def selectQuery_def Insert_def Update_def Delete_def)

theorem terminal_calls_return_first_error_witness:
  "Select exampleJoinMethods (exampleExecutor :: (string iface, string) SqlExecutor)
      ((emptyPlan :: (nat, string) QueryPlan)\<lparr>Errors := [errNoField, errTransient]\<rparr>)
     = Some (([], Some errNoField), emptyPlan\<lparr>Errors := [errNoField, errTransient]\<rparr>, [])
   \<and> Insert (exampleExecutor :: (string iface, string) SqlExecutor)
      ((emptyPlan :: (nat, string) QueryPlan)\<lparr>Errors := [errNoField, errTransient]\<rparr>)
     = Some (Some errNoField, emptyPlan\<lparr>Errors := [errNoField, errTransient]\<rparr>, [])
   \<and> Update exampleJoinMethods (exampleExecutor :: (string iface, string) SqlExecutor)
      ((emptyPlan :: (nat, string) QueryPlan)\<lparr>Errors := [errNoField, errTransient]\<rparr>)
     = Some ((- 1, Some errNoField), emptyPlan\<lparr>Errors := [errNoField, errTransient]\<rparr>, [])
   \<and> Delete exampleJoinMethods (exampleExecutor :: (string iface, string) SqlExecutor)
      ((emptyPlan :: (nat, string) QueryPlan)\<lparr>Errors := [errNoField, errTransient]\<rparr>)
     = Some ((- 1, Some errNoField), emptyPlan\<lparr>Errors := [errNoField, errTransient]\<rparr>, [])"
  using terminal_calls_return_first_error
    [of "(emptyPlan :: (nat, string) QueryPlan)\<lparr>Errors := [errNoField, errTransient]\<rparr>"
        errNoField "[errTransient]" exampleJoinMethods
        "exampleExecutor :: (string iface, string) SqlExecutor"]
  by simp

subsection \<open>C2: the operators of Greater and GreaterOrEqual\<close>

text \<open>In the filter algebra of query.go (lines 176-184) both constructors build the filter
  that \<^verbatim>\<open>Equal\<close> builds, for every field pointer and value.\<close>

lemma Greater_is_Equal:
  "Greater fieldPtr v = Equal fieldPtr v \<and> GreaterOrEqual fieldPtr v = Equal fieldPtr v"
  by (simp add: Greater_def GreaterOrEqual_def Equal_def)

text \<open>The plan methods of the second and third snapshot pass \<^verbatim>\<open>>\<close> and \<^verbatim>\<open>>=\<close>.\<close>

lemma Greater_q3_operator:
  "Greater_q3 plan fieldPtr v = addWhere_q3 plan fieldPtr ''>'' v
   \<and> GreaterOrEqual_q3 plan fieldPtr v = addWhere_q3 plan fieldPtr ''>='' v
   \<and> Greater_q2 plan2 fieldPtr v = addWhere_q2 plan2 fieldPtr ''>'' v
   \<and> GreaterOrEqual_q2 plan2 fieldPtr v = addWhere_q2 plan2 fieldPtr ''>='' v"
  by (simp add: Greater_q3_def GreaterOrEqual_q3_def Greater_q2_def GreaterOrEqual_q2_def)

text \<open>
  C2 (the code at a failing input). With the column map of the invoice target,
  \<^verbatim>\<open>Greater(&inv.Id, 7)\<close> and \<^verbatim>\<open>GreaterOrEqual(&inv.Id, 7)\<close> of query.go lines 176-184 render
  \<^verbatim>\<open>[id]=$1\<close>: the comparison is \<^verbatim>\<open>=\<close>, where the specification (and the functions' own comments)
  say \<^verbatim>\<open>>\<close> and \<^verbatim>\<open>>=\<close>.
\<close>

theorem Greater_renders_equals_sign:
  "Where (columnForPointer_q1 invoiceColMap_q1) exampleDialect 0 (Greater (1::nat) (7::int))
     = Inr (''[id]=$1'', [7])
   \<and> Where (columnForPointer_q1 invoiceColMap_q1) exampleDialect 0 (GreaterOrEqual (1::nat) (7::int))
     = Inr (''[id]=$1'', [7])"
  by (simp add: Greater_def GreaterOrEqual_def invoiceColMap_q1_def exampleDialect_def
      decimal.simps)

subsection \<open>C3: bind indices of an AND of comparisons\<close>

text \<open>The loop of \<^verbatim>\<open>joinFilters\<close> over comparison filters whose columns resolve: every
  filter adds one piece, rendered with the start index plus the number of arguments bound
  so far, and one argument.\<close>

lemma joinFilters_loop_comparisons:
  assumes "\<forall>c \<in> set cs. cfp (fst c) = Inr (col (fst c))"
  shows "joinFilters_loop sep cfp d k index buf as
           (map (\<lambda>(a, opr, v). comparisonFilter a opr v) cs)
     = Inr (buf @ concat (map (\<lambda>(j, (a, opr, v)).
                (if index + j \<noteq> 0 then sep else []) @ col a @ opr @ BindVar d (k + length as + j))
              (enumerate 0 cs)),
            as @ map (\<lambda>(a, opr, v). v) cs)"
  using assms
proof (induction cs arbitrary: index buf as)
  case Nil
  then show ?case by simp
next
  case (Cons c cs)
  obtain a opr v where c: "c = (a, opr, v)" by (cases c)
  have r: "cfp a = Inr (col a)" using Cons.prems c by simp
  have rest: "\<forall>c \<in> set cs. cfp (fst c) = Inr (col (fst c))" using Cons.prems by simp
  show ?case
    using Cons.IH[OF rest, of "Suc index" _ "as @ [v]"]
    by (simp add: c r enumerate_Suc_eq[of 0] o_def split_def)
qed

text \<open>When a field pointer does not resolve there is no fragment: a rendering that
  succeeds has resolved every field pointer.\<close>

lemma joinFilters_loop_comparisons_resolved:
  assumes "joinFilters_loop sep cfp d k index buf as
           (map (\<lambda>(a, opr, v). comparisonFilter a opr v) cs) = Inr r"
  shows "\<forall>c \<in> set cs. \<exists>column. cfp (fst c) = Inr column"
  using assms
proof (induction cs arbitrary: index buf as)
  case Nil
  then show ?case by simp
next
  case (Cons c cs)
  obtain a opr v where c: "c = (a, opr, v)" by (cases c)
  show ?case
  proof (cases "cfp a")
    case (Inl e)
    with Cons.prems c show ?thesis by simp
  next
    case (Inr column)
    with Cons.prems c Cons.IH show ?thesis by fastforce
  qed
qed

lemma separated_pieces:
  "concat (map (\<lambda>(j, p). (if Suc i + j \<noteq> 0 then sep else []) @ p) (enumerate 0 ps))
     = concat (map (\<lambda>p. sep @ p) ps)"
  by (induction ps arbitrary: i) (simp_all add: enumerate_Suc_eq[of 0] o_def split_def)

lemma strings_Join_Cons: "strings_Join (p # ps) sep = p @ concat (map (\<lambda>p. sep @ p) ps)"
  by (induction ps arbitrary: p) auto

lemma strings_Join_enumerate:
  "concat (map (\<lambda>(j, p). (if j \<noteq> 0 then sep else []) @ p) (enumerate 0 ps)) = strings_Join ps sep"
proof (cases ps)
  case Nil
  then show ?thesis by simp
next
  case (Cons p ps')
  show ?thesis
    unfolding Cons strings_Join_Cons using separated_pieces[of 0 sep ps']
    by (simp add: enumerate_Suc_eq[of 0] o_def split_def)
qed

lemma enumerate_map_enumerate:
  "enumerate n (map G (enumerate n cs)) = map (\<lambda>(j, c). (j, G (j, c))) (enumerate n cs)"
  by (induction cs arbitrary: n) simp_all

text \<open>
  C3. Let \<open>cs\<close> be N comparisons (field pointer, operator, value) whose field pointers
  resolve, combined by \<^verbatim>\<open>And\<close> and rendered with start index \<open>k\<close>. The fragment is the N
  pieces \<^verbatim>\<open>column operator placeholder\<close> in order, joined by \<^verbatim>\<open> and \<close> (in parentheses when
  N > 1), where the placeholder of piece \<open>i\<close> (from 0) is \<^verbatim>\<open>BindVar(k + i)\<close>: N
  placeholders with the indices k, ..., k+N-1 in order of appearance. The argument list is
  the N values in the same order.
\<close>

theorem and_of_comparisons_placeholders:
  assumes "\<forall>c \<in> set cs. cfp (fst c) = Inr (col (fst c))"
  shows "Where cfp dialect k (And (map (\<lambda>(a, opr, v). comparisonFilter a opr v) cs))
     = Inr ((if length cs > 1 then ''('' else [])
              @ strings_Join (map (\<lambda>(i, (a, opr, v)). col a @ opr @ BindVar dialect (k + i))
                               (enumerate 0 cs)) '' and ''
              @ (if length cs > 1 then '')'' else []),
            map (\<lambda>(a, opr, v). v) cs)"
proof -
  let ?piece = "\<lambda>(i, (a, opr, v)). col a @ opr @ BindVar dialect (k + i)"
  have pieces: "concat (map (\<lambda>(j, (a, opr, v)).
            (if 0 + j \<noteq> 0 then '' and '' else []) @ col a @ opr
              @ BindVar dialect (k + length ([] :: 'b list) + j))
          (enumerate 0 cs))
        = strings_Join (map ?piece (enumerate 0 cs)) '' and ''"
    unfolding strings_Join_enumerate[symmetric] enumerate_map_enumerate
    by (simp add: o_def split_def)
  show ?thesis
    using joinFilters_loop_comparisons[OF assms, of "'' and ''" dialect k 0 _ "[]"] pieces
    by (simp add: And_def)
qed

theorem and_of_comparisons_placeholders_witness:
  "columnForPointer_q1 invoiceColMap_q1 (1::nat) = Inr ''[id]''
   \<and> columnForPointer_q1 invoiceColMap_q1 (2::nat) = Inr ''[memo]''
   \<and> Where (columnForPointer_q1 invoiceColMap_q1) exampleDialect 2
        (And [Equal (1::nat) (5::int), Less 2 6])
      = Inr (''([id]=$3 and [memo]<$4)'', [5, 6])"
proof -
  have h: "\<forall>c \<in> set [(1::nat, ''='', 5::int), (2, ''<'', 6)].
       columnForPointer_q1 invoiceColMap_q1 (fst c)
         = Inr ((\<lambda>a. if a = 1 then ''[id]'' else ''[memo]'') (fst c))"
    by (simp add: invoiceColMap_q1_def)
  show ?thesis
    using h and_of_comparisons_placeholders[OF h, of exampleDialect 2]
    by (simp add: Equal_def Less_def exampleDialect_def decimal.simps enumerate_Suc_eq[of 0]
          del: Where.simps)
qed

subsection \<open>C9: Update and a join clause that does not render\<close>

text \<open>The example plans are what the builder calls produce.\<close>

lemma query_invoice: "query exampleTableFor (StructPtr ''Invoice'' invoiceFields) = Some invoicePlan"
  by (simp add: query_def mapTable_def exampleTableFor_def invoiceFields_def invoiceTable_def
      ColMap_def invoicePlan_def invoiceColMap_def exampleDialect_def emptyPlan_def)

lemma joinedPlan_chain:
  "Option.bind (Option.bind (Option.bind (Assign invoicePlan 2 (Val ''x''))
      (\<lambda>p. Join exampleTableFor p (StructPtr ''Person'' personFields)))
      (\<lambda>p. plan_Equal p 12 (Val ''y'')))
      (\<lambda>p. plan_Where p [])
   = Some joinedPlan"
  by (simp add: Assign_def Join_def plan_Equal_def plan_Filter_def plan_Where_def storeJoin_def
      MultiFilter_Add_def mapTable_def exampleTableFor_def invoicePlan_def invoiceColMap_def
      personFields_def personTable_def personColMap_def invoiceTable_def ColMap_def
      columnForPointer_def joinedPlan_def exampleDialect_def emptyPlan_def decimal.simps)

lemma setList_loop_total:
  "i + length cols \<le> length bindVars \<Longrightarrow> \<exists>s. setList_loop i cols bindVars = Some s"
proof (induction cols arbitrary: i)
  case Nil
  then show ?case by simp
next
  case (Cons c cols)
  then have "\<exists>s. setList_loop (Suc i) cols bindVars = Some s" by simp
  with Cons.prems show ?case by auto
qed

text \<open>
  C9. In query_plans.go, when the plan has no recorded error and
  \<^verbatim>\<open>joinFromAndWhereClause\<close> fails with an error, \<^verbatim>\<open>Update\<close> returns -1 with a nil error
  (the error is dropped) and makes no executor call. (The assignment lists are as
  \<^verbatim>\<open>Assign\<close> leaves them, so that the set loop does not index out of range.)
\<close>

theorem Update_drops_join_error:
  assumes "Errors plan = []"
    and "length (assignCols plan) \<le> length (assignBindVars plan)"
    and "joinFromAndWhereClause jm plan = Some (Inl err, plan1)"
  shows "Update jm executor plan = Some ((- 1, None), plan1, [])"
proof -
  obtain s where s: "setList_loop 0 (assignCols plan) (assignBindVars plan) = Some s"
    using setList_loop_total[of 0 "assignCols plan" "assignBindVars plan"] assms(2) by auto
  obtain t where t: "table plan = Some t"
    using assms(3) by (cases "table plan") (auto simp: joinFromAndWhereClause_def split: if_splits)
  show ?thesis using assms(1,3) s t by (simp add: Update_def)
qed

text \<open>\<^verbatim>\<open>Delete\<close>, in the same state, returns the error.\<close>

lemma Delete_returns_join_error:
  assumes "Errors plan = []"
    and "joinFromAndWhereClause jm plan = Some (Inl err, plan1)"
  shows "Delete jm executor plan = Some ((- 1, Some err), plan1, [])"
proof -
  obtain t where t: "table plan = Some t"
    using assms(2) by (cases "table plan") (auto simp: joinFromAndWhereClause_def split: if_splits)
  show ?thesis using assms t by (simp add: Delete_def)
qed

lemma joinedPlan_join_fails: "joinFromAndWhereClause exampleJoinMethods joinedPlan = Some (Inl errTransient, joinedPlan)"
  by (simp add: joinFromAndWhereClause_def joinedPlan_def exampleJoinMethods_def emptyPlan_def
      invoiceColMap_def personColMap_def columnForPointer_def Equal_def)

theorem Update_drops_join_error_witness:
  "Errors joinedPlan = []
   \<and> length (assignCols joinedPlan) \<le> length (assignBindVars joinedPlan)
   \<and> joinFromAndWhereClause exampleJoinMethods joinedPlan = Some (Inl errTransient, joinedPlan)
   \<and> Update exampleJoinMethods (exampleExecutor :: (string iface, string) SqlExecutor) joinedPlan
        = Some ((- 1, None), joinedPlan, [])"
proof -
  have e: "Errors joinedPlan = []" by (simp add: joinedPlan_def emptyPlan_def)
  have l: "length (assignCols joinedPlan) \<le> length (assignBindVars joinedPlan)"
    by (simp add: joinedPlan_def emptyPlan_def)
  show ?thesis
    using e l joinedPlan_join_fails
      Update_drops_join_error[OF e l joinedPlan_join_fails,
        of "exampleExecutor :: (string iface, string) SqlExecutor"]
    by simp
qed

subsection \<open>C8: the direction of OrderBy\<close>

lemma strings_ToLower_directions:
  "strings_ToLower ''asc'' = ''asc''" "strings_ToLower ''desc'' = ''desc''"
  "strings_ToLower ''DESC'' = ''desc''" "strings_ToLower ''Asc'' = ''asc''"
  "strings_ToLower ''sideways'' = ''sideways''" "strings_ToLower [] = []"
  by (simp_all add: strings_ToLower_def toLower_byte_def)

text \<open>
  C8 (counterexample). In the second snapshot of query.go (lines 1099-1108) \<^verbatim>\<open>OrderBy\<close>
  with the direction \<^verbatim>\<open>sideways\<close>, which is outside the set, records no error and
  replaces the plan's ordering (column and direction).
\<close>

theorem OrderBy_q2_keeps_invalid_direction:
  "strings_ToLower ''sideways'' \<notin> {[], ''asc'', ''desc''}
   \<and> OrderBy_q2 invoicePlan_q2 2 ''sideways''
       = Some (invoicePlan_q2\<lparr>orderBy_q2 := ''memo'', orderByDirection_q2 := ''sideways''\<rparr>)
   \<and> Errors_q2 (invoicePlan_q2\<lparr>orderBy_q2 := ''memo'', orderByDirection_q2 := ''sideways''\<rparr>) = []
   \<and> orderBy_q2 invoicePlan_q2 = []"
  by (simp add: strings_ToLower_directions OrderBy_q2_def ColumnForPointer_q2_def
      invoicePlan_q2_def invoiceFields_def invoiceTable_def ColMap_def)

text \<open>That snapshot checks the direction when \<^verbatim>\<open>Select\<close> renders it.\<close>

lemma Select_q2_rejects_direction:
  "Select_q2 (exampleExecutor :: (string iface, string) SqlExecutor)
      (invoicePlan_q2\<lparr>orderBy_q2 := ''memo'', orderByDirection_q2 := ''sideways''\<rparr>)
   = Some (([], Some errDirection_q2),
           invoicePlan_q2\<lparr>orderBy_q2 := ''memo'', orderByDirection_q2 := ''sideways'',
              Errors_q2 := [errDirection_q2]\<rparr>, [])"
  by (simp add: Select_q2_def invoicePlan_q2_def strings_ToLower_directions)

text \<open>
  C8 (amended). In query_plans.go, when the field pointer resolves to a column, \<^verbatim>\<open>OrderBy\<close>
  with a direction whose lower-case form is outside \<open>{"", "asc", "desc"}\<close> appends the
  InvalidOrderDirection error and changes nothing else (the ordering list is as it was);
  with a direction in the set it appends the column to the ordering list and records no
  error.
\<close>

theorem OrderBy_validates_direction:
  assumes "tableColumnForPointer (colMap plan) fieldPtr = Inr col"
  shows "OrderBy plan fieldPtr direction =
     (if strings_ToLower direction \<in> {[], ''asc'', ''desc''}
      then plan\<lparr>orderBy := orderBy plan @ [col]\<rparr>
      else plan\<lparr>Errors := Errors plan @ [errOrderDirection]\<rparr>)"
  using assms by (auto simp: OrderBy_def)

theorem OrderBy_validates_direction_witness:
  "tableColumnForPointer (colMap invoicePlan) 2 = Inr ''[invoice].[memo]''
   \<and> OrderBy invoicePlan 2 ''DESC'' = invoicePlan\<lparr>orderBy := [''[invoice].[memo]'']\<rparr>
   \<and> OrderBy invoicePlan 2 ''sideways'' = invoicePlan\<lparr>Errors := [errOrderDirection]\<rparr>"
proof -
  have r: "tableColumnForPointer (colMap invoicePlan) 2 = Inr ''[invoice].[memo]''"
    by (simp add: invoicePlan_def invoiceColMap_def tableColumnForPointer_def emptyPlan_def)
  have e: "Errors invoicePlan = []" "orderBy invoicePlan = []"
    by (simp_all add: invoicePlan_def emptyPlan_def)
  show ?thesis
    using r OrderBy_validates_direction[OF r, of "''DESC''"]
      OrderBy_validates_direction[OF r, of "''sideways''"]
    by (simp add: strings_ToLower_directions e)
qed

text \<open>The third snapshot of query.go validates in the same way; and when the field pointer
  does not resolve, the resolution error is the one recorded, whatever the direction.\<close>

lemma OrderBy_q3_validates_direction:
  assumes "ColumnForPointer_q3 plan fieldPtr = Inr col"
  shows "OrderBy_q3 plan fieldPtr direction =
     (if strings_ToLower direction \<in> {[], ''asc'', ''desc''}
      then plan\<lparr>orderBy_q3 := orderBy_q3 plan @ [col]\<rparr>
      else plan\<lparr>Errors_q3 := Errors_q3 plan @ [errOrderDirection]\<rparr>)"
  using assms by (auto simp: OrderBy_q3_def)

lemma OrderBy_unresolved:
  assumes "tableColumnForPointer (colMap plan) fieldPtr = Inl err"
  shows "OrderBy plan fieldPtr direction = plan\<lparr>Errors := Errors plan @ [err]\<rparr>"
  using assms by (simp add: OrderBy_def)

subsection \<open>C10: the direction is not recorded\<close>

text \<open>
  C10. In query_plans.go, for every plan and field pointer, \<^verbatim>\<open>OrderBy\<close> with \<^verbatim>\<open>asc\<close>, with
  \<^verbatim>\<open>desc\<close> and with the empty direction give the same plan: the column alone is appended
  to the ordering list (or the resolution error to the errors). So \<^verbatim>\<open>selectQuery\<close> renders
  the same statement, and \<^verbatim>\<open>Select\<close> does the same, for the three directions.
\<close>

theorem OrderBy_drops_direction:
  "OrderBy plan fieldPtr ''asc'' = OrderBy plan fieldPtr []
   \<and> OrderBy plan fieldPtr ''desc'' = OrderBy plan fieldPtr []
   \<and> OrderBy plan fieldPtr [] =
       (case tableColumnForPointer (colMap plan) fieldPtr of
          Inl err \<Rightarrow> plan\<lparr>Errors := Errors plan @ [err]\<rparr>
        | Inr col \<Rightarrow> plan\<lparr>orderBy := orderBy plan @ [col]\<rparr>)
   \<and> selectQuery jm (OrderBy plan fieldPtr ''asc'') = selectQuery jm (OrderBy plan fieldPtr [])
   \<and> selectQuery jm (OrderBy plan fieldPtr ''desc'') = selectQuery jm (OrderBy plan fieldPtr [])
   \<and> Select jm executor (OrderBy plan fieldPtr ''asc'') = Select jm executor (OrderBy plan fieldPtr [])
   \<and> Select jm executor (OrderBy plan fieldPtr ''desc'') = Select jm executor (OrderBy plan fieldPtr [])"
proof -
  have a: "OrderBy plan fieldPtr ''asc'' = OrderBy plan fieldPtr []"
    by (simp add: OrderBy_def strings_ToLower_directions split: sum.splits)
  have d: "OrderBy plan fieldPtr ''desc'' = OrderBy plan fieldPtr []"
    by (simp add: OrderBy_def strings_ToLower_directions split: sum.splits)
  have e: "OrderBy plan fieldPtr [] =
       (case tableColumnForPointer (colMap plan) fieldPtr of
          Inl err \<Rightarrow> plan\<lparr>Errors := Errors plan @ [err]\<rparr>
        | Inr col \<Rightarrow> plan\<lparr>orderBy := orderBy plan @ [col]\<rparr>)"
    by (simp add: OrderBy_def strings_ToLower_directions split: sum.splits)
  show ?thesis unfolding a d using e by simp
qed

text \<open>For example \<^verbatim>\<open>Where().OrderBy(&inv.Memo, "desc").Select()\<close> sends a statement without
  \<^verbatim>\<open>desc\<close>.\<close>

lemma Select_drops_direction_example:
  "Option.bind (plan_Where invoicePlan [])
     (\<lambda>p. Select exampleJoinMethods (exampleExecutor :: (string iface, string) SqlExecutor)
             (OrderBy p 2 ''desc''))
   = Some (([], None),
           invoicePlan\<lparr>filters := MF_and [], orderBy := [''[invoice].[memo]'']\<rparr>,
           [SelectCall ''select [invoice].[id],[invoice].[memo] from [invoice] order by [invoice].[memo]'' []])"
  by (simp add: plan_Where_def plan_Filter_def storeJoin_def MultiFilter_Add_def OrderBy_def
      tableColumnForPointer_def strings_ToLower_directions Select_def selectQuery_def
      selectJoinClause_def whereClause_def MultiFilter_Where_def invoicePlan_def emptyPlan_def
      invoiceColMap_def invoiceTable_def exampleDialect_def exampleExecutor_def Let_def)

subsection \<open>C7: the column list of Select\<close>

text \<open>
  The loop writes a comma before every persistent column but the one at index 0. When the
  first column is persistent the list is the quoted persistent columns separated by
  commas; when it is transient, every persistent column has a comma before it. A
  transient column is never written.
\<close>

lemma selectColumns_later:
  "selectColumns dialect quotedT (Suc index) cols
     = concat (map (\<lambda>col. '','' @ quotedT @ ''.'' @ QuoteField dialect (ColumnName col))
                 (filter (\<lambda>col. \<not> Transient col) cols))"
  by (induction cols arbitrary: index) simp_all

lemma selectColumns_first_persistent:
  assumes "\<not> Transient col"
  shows "selectColumns dialect quotedT 0 (col # cols)
     = strings_Join (map (\<lambda>col. quotedT @ ''.'' @ QuoteField dialect (ColumnName col))
                       (filter (\<lambda>col. \<not> Transient col) (col # cols))) '',''"
  using assms by (simp add: selectColumns_later strings_Join_Cons o_def)

lemma selectColumns_first_transient:
  assumes "Transient col"
  shows "selectColumns dialect quotedT 0 (col # cols)
     = concat (map (\<lambda>col. '','' @ quotedT @ ''.'' @ QuoteField dialect (ColumnName col))
                 (filter (\<lambda>col. \<not> Transient col) cols))"
  using assms by (simp add: selectColumns_later)

text \<open>
  C7 (the code at a failing input). For a table whose columns are \<^verbatim>\<open>draft\<close> (transient),
  \<^verbatim>\<open>id\<close>, \<^verbatim>\<open>memo\<close>, the column loop of query_plans.go (lines 604-613) and the one of
  query.go (lines 609-616) render a list that starts with a comma, and \<^verbatim>\<open>Select\<close> sends
  \<^verbatim>\<open>select ,[invoice].[id],[invoice].[memo] from [invoice]\<close> to the executor; the
  specification says the list is the persistent columns separated by commas.
\<close>

theorem Select_leading_comma:
  "selectColumns exampleDialect ''[invoice]'' 0 (columns draftFirstTable)
     = '',[invoice].[id],[invoice].[memo]''
   \<and> selectColumns_q exampleDialect 0 (columns draftFirstTable) = '',[id],[memo]''
   \<and> Select exampleJoinMethods (exampleExecutor :: (string iface, string) SqlExecutor)
        draftFirstPlan
     = Some (([], None), draftFirstPlan,
             [SelectCall ''select ,[invoice].[id],[invoice].[memo] from [invoice]'' []])"
  by (simp add: draftFirstTable_def draftFirstPlan_def exampleDialect_def Select_def
      selectQuery_def selectJoinClause_def whereClause_def MultiFilter_Where_def emptyPlan_def
      exampleExecutor_def Let_def)

subsection \<open>C6: builder calls after an error\<close>

text \<open>In the second snapshot of query.go, an \<^verbatim>\<open>addWhere\<close> whose column does not resolve
  appends the error, an empty where entry and the value.\<close>

lemma addWhere_q2_error:
  assumes "columnOperatorString plan fieldPtr operator = Some (Inl err)"
  shows "addWhere_q2 plan fieldPtr operator v =
     Some (plan\<lparr>Errors_q2 := Errors_q2 plan @ [err],
                where_q2 := where_q2 plan @ [[]],
                args_q2 := args_q2 plan @ [v]\<rparr>)"
  using assms by (simp add: addWhere_q2_def)

text \<open>In the third snapshot it appends the error only; and whatever it appends to the where
  list is a rendered comparison whose placeholder has the index of the appended value.\<close>

lemma addWhere_q3_error:
  assumes "ColumnForPointer_q3 plan fieldPtr = Inl err"
  shows "addWhere_q3 plan fieldPtr operator v = Some (plan\<lparr>Errors_q3 := Errors_q3 plan @ [err]\<rparr>)"
  using assms by (simp add: addWhere_q3_def)

lemma addWhere_q3_appends_aligned:
  assumes "addWhere_q3 plan fieldPtr operator v = Some plan'"
  shows "(where_q3 plan' = where_q3 plan \<and> args_q3 plan' = args_q3 plan)
       \<or> (\<exists>col t. ColumnForPointer_q3 plan fieldPtr = Inr col \<and> table_q3 plan = Some t
            \<and> where_q3 plan' = where_q3 plan
                 @ [col @ operator @ BindVar (dbmap_Dialect t) (length (args_q3 plan))]
            \<and> args_q3 plan' = args_q3 plan @ [v])"
  using assms by (auto simp: addWhere_q3_def split: sum.splits option.splits)

text \<open>
  C6 (the code at a failing input). Second snapshot of query.go (lines 1049-1056), plan of
  the invoice target: \<^verbatim>\<open>Equal(p, "a")\<close> with a pointer \<open>p\<close> that is no field of the target
  records the first error and appends the empty string to \<^verbatim>\<open>plan.where\<close> and \<^verbatim>\<open>"a"\<close> to
  \<^verbatim>\<open>plan.args\<close>; then, the error list being non-empty, \<^verbatim>\<open>Equal(&inv.Draft, "b")\<close> on the
  transient column appends a second empty where entry and \<^verbatim>\<open>"b"\<close>. The specification says no
  builder call after the first error adds a malformed where entry or an argument without
  its placeholder.
\<close>

theorem addWhere_q2_appends_after_error:
  "Equal_q2 invoicePlan_q2 99 (Val ''a'')
     = Some (invoicePlan_q2\<lparr>Errors_q2 := [errNoFieldPtr_q2], where_q2 := [[]],
               args_q2 := [Val ''a'']\<rparr>)
   \<and> Equal_q2 (invoicePlan_q2\<lparr>Errors_q2 := [errNoFieldPtr_q2], where_q2 := [[]],
               args_q2 := [Val ''a'']\<rparr>) 3 (Val ''b'')
     = Some (invoicePlan_q2\<lparr>Errors_q2 := [errNoFieldPtr_q2, errTransient_q2],
               where_q2 := [[], []], args_q2 := [Val ''a'', Val ''b'']\<rparr>)"
  by (simp add: Equal_q2_def addWhere_q2_def columnOperatorString_def ColumnForPointer_q2_def
      invoicePlan_q2_def invoiceFields_def invoiceTable_def ColMap_def)

subsection \<open>C4: references to a transient column\<close>

lemma wherePlan_chain:
  "Option.bind (plan_Where invoicePlan []) (\<lambda>p. plan_Equal p 1 (Val ''7'')) = Some wherePlan"
  by (simp add: plan_Where_def plan_Equal_def plan_Filter_def storeJoin_def MultiFilter_Add_def
      invoicePlan_def emptyPlan_def wherePlan_def)

text \<open>A field pointer resolves to a transient column when the first binding with its
  address is one of a transient column; that is when \<^verbatim>\<open>fieldMapForPointer\<close> returns the
  transient-column error.\<close>

lemma fieldMapForPointer_transient_iff:
  "fieldMapForPointer structMap fieldPtr = Inl errTransient \<longleftrightarrow>
     (\<exists>pre fm post. structMap = pre @ fm # post \<and> fieldPtr \<notin> addr ` set pre
        \<and> addr fm = fieldPtr \<and> Transient (column fm))"
proof (induction structMap)
  case Nil
  then show ?case by (simp add: errNoField_def errTransient_def)
next
  case (Cons e structMap)
  show ?case
  proof (cases "addr e = fieldPtr")
    case True
    have "(\<exists>pre fm post. e # structMap = pre @ fm # post \<and> fieldPtr \<notin> addr ` set pre
        \<and> addr fm = fieldPtr \<and> Transient (column fm)) \<longleftrightarrow> Transient (column e)"
    proof
      assume "\<exists>pre fm post. e # structMap = pre @ fm # post \<and> fieldPtr \<notin> addr ` set pre
        \<and> addr fm = fieldPtr \<and> Transient (column fm)"
      then obtain pre fm post where p: "e # structMap = pre @ fm # post"
        "fieldPtr \<notin> addr ` set pre" "addr fm = fieldPtr" "Transient (column fm)" by blast
      show "Transient (column e)"
      proof (cases pre)
        case Nil
        with p show ?thesis by simp
      next
        case (Cons x xs)
        with p True show ?thesis by auto
      qed
    next
      assume "Transient (column e)"
      then have "e # structMap = [] @ e # structMap \<and> fieldPtr \<notin> addr ` set []
        \<and> addr e = fieldPtr \<and> Transient (column e)" using True by simp
      then show "\<exists>pre fm post. e # structMap = pre @ fm # post \<and> fieldPtr \<notin> addr ` set pre
        \<and> addr fm = fieldPtr \<and> Transient (column fm)" by blast
    qed
    with True show ?thesis by simp
  next
    case False
    have "(\<exists>pre fm post. e # structMap = pre @ fm # post \<and> fieldPtr \<notin> addr ` set pre
        \<and> addr fm = fieldPtr \<and> Transient (column fm)) \<longleftrightarrow>
      (\<exists>pre fm post. structMap = pre @ fm # post \<and> fieldPtr \<notin> addr ` set pre
        \<and> addr fm = fieldPtr \<and> Transient (column fm))"
    proof
      assume "\<exists>pre fm post. e # structMap = pre @ fm # post \<and> fieldPtr \<notin> addr ` set pre
        \<and> addr fm = fieldPtr \<and> Transient (column fm)"
      then obtain pre fm post where p: "e # structMap = pre @ fm # post"
        "fieldPtr \<notin> addr ` set pre" "addr fm = fieldPtr" "Transient (column fm)" by blast
      show "\<exists>pre fm post. structMap = pre @ fm # post \<and> fieldPtr \<notin> addr ` set pre
        \<and> addr fm = fieldPtr \<and> Transient (column fm)"
      proof (cases pre)
        case Nil
        with p False show ?thesis by simp
      next
        case (Cons x xs)
        with p have "structMap = xs @ fm # post \<and> fieldPtr \<notin> addr ` set xs" by auto
        with p show ?thesis by blast
      qed
    next
      assume "\<exists>pre fm post. structMap = pre @ fm # post \<and> fieldPtr \<notin> addr ` set pre
        \<and> addr fm = fieldPtr \<and> Transient (column fm)"
      then obtain pre fm post where p: "structMap = pre @ fm # post"
        "fieldPtr \<notin> addr ` set pre" "addr fm = fieldPtr" "Transient (column fm)" by blast
      then have "e # structMap = (e # pre) @ fm # post \<and> fieldPtr \<notin> addr ` set (e # pre)"
        using False by auto
      with p show "\<exists>pre fm post. e # structMap = pre @ fm # post \<and> fieldPtr \<notin> addr ` set pre
        \<and> addr fm = fieldPtr \<and> Transient (column fm)" by blast
    qed
    with False Cons.IH show ?thesis by simp
  qed
qed

text \<open>The loop of \<^verbatim>\<open>joinFilters\<close> over a longer list; whether it succeeds, and with which
  arguments, does not depend on the buffer, the separator or the index.\<close>

lemma joinFilters_loop_append:
  "joinFilters_loop sep cfp d k i buf as (xs @ ys) =
     (case joinFilters_loop sep cfp d k i buf as xs of
        Inl e \<Rightarrow> Inl e
      | Inr (buf', as') \<Rightarrow> joinFilters_loop sep cfp d k (i + length xs) buf' as' ys)"
proof (induction xs arbitrary: i buf as)
  case Nil
  then show ?case by simp
next
  case (Cons x xs)
  show ?case
  proof (cases "Where cfp d (k + length as) x")
    case (Inl e)
    then show ?thesis by simp
  next
    case (Inr p)
    obtain w a where p: "p = (w, a)" by (cases p)
    show ?thesis using Inr p Cons.IH by (simp split: sum.split)
  qed
qed

lemma joinFilters_loop_args:
  "map_sum id snd (joinFilters_loop sep cfp d k i buf as xs)
     = map_sum id snd (joinFilters_loop sep' cfp d k i' buf' as xs)"
proof (induction xs arbitrary: i buf as i' buf')
  case Nil
  then show ?case by simp
next
  case (Cons x xs)
  show ?case
  proof (cases "Where cfp d (k + length as) x")
    case (Inl e)
    then show ?thesis by simp
  next
    case (Inr p)
    obtain w a where p: "p = (w, a)" by (cases p)
    show ?thesis using Inr p Cons.IH by simp
  qed
qed

lemma joinFilters_loop_succeeds:
  assumes "joinFilters_loop sep cfp d k i buf as xs = Inr r"
  shows "\<exists>b. joinFilters_loop sep' cfp d k i' buf' as xs = Inr (b, snd r)"
proof -
  have "map_sum id snd (joinFilters_loop sep' cfp d k i' buf' as xs) = Inr (snd r)"
    using joinFilters_loop_args[of sep' cfp d k i' buf' as xs sep i buf] assms by simp
  then show ?thesis by (cases "joinFilters_loop sep' cfp d k i' buf' as xs") auto
qed

lemma and_with_failing_last:
  assumes "Where cfp d k (andFilter subFilters) = Inr r"
    and "\<And>k'. Where cfp d k' f = Inl err"
  shows "Where cfp d k (andFilter (subFilters @ [f])) = Inl err"
proof -
  obtain r' where "joinFilters_loop '' and '' cfp d k 0
      (if length subFilters > 1 then ''('' else []) [] subFilters = Inr r'"
    using assms(1) by (auto split: sum.splits)
  then obtain b where "joinFilters_loop '' and '' cfp d k 0
      (if length (subFilters @ [f]) > 1 then ''('' else []) [] subFilters = Inr (b, snd r')"
    using joinFilters_loop_succeeds by blast
  then show ?thesis
    using assms(2) by (simp add: joinFilters_loop_append)
qed

text \<open>
  In the where clause the reference fails as the specification says. Let the field pointer
  resolve to a transient column. Then \<^verbatim>\<open>Assign\<close>, \<^verbatim>\<open>OrderBy\<close> and \<^verbatim>\<open>GroupBy\<close> append the
  transient-column error and change nothing else. A comparison, null or not-null filter on
  the pointer renders to that error, for every dialect and start index; when such a filter
  is added to a where clause whose filters so far render, the call changes
  \<^verbatim>\<open>plan.filters\<close> only, and \<^verbatim>\<open>whereClause\<close> then fails with the transient-column error
  and leaves the plan as it was.
\<close>

lemma transient_reference_in_where_clause:
  assumes "fieldMapForPointer (colMap plan) fieldPtr = Inl errTransient"
  shows "Assign plan fieldPtr v = Some (plan\<lparr>Errors := Errors plan @ [errTransient]\<rparr>)
    \<and> OrderBy plan fieldPtr direction = plan\<lparr>Errors := Errors plan @ [errTransient]\<rparr>
    \<and> GroupBy plan fieldPtr = plan\<lparr>Errors := Errors plan @ [errTransient]\<rparr>
    \<and> (\<forall>f \<in> {comparisonFilter fieldPtr opr v, nullFilter fieldPtr, notNullFilter fieldPtr}.
         Where (columnForPointer (colMap plan)) dialect k f = Inl errTransient
         \<and> (\<forall>subFilters r t.
               filters plan = MF_and subFilters \<and> table plan = Some t
               \<and> Where (columnForPointer (colMap plan)) (dbmap_Dialect t) (length (args plan))
                    (andFilter subFilters) = Inr r
               \<longrightarrow> plan_Filter plan [f] = Some (plan\<lparr>filters := MF_and (subFilters @ [f])\<rparr>)
                 \<and> whereClause jm (plan\<lparr>filters := MF_and (subFilters @ [f])\<rparr>)
                     = Some (Inl errTransient, plan\<lparr>filters := MF_and (subFilters @ [f])\<rparr>)))"
proof -
  have c: "columnForPointer (colMap plan) fieldPtr = Inl errTransient"
    using assms by (simp add: columnForPointer_def)
  have tc: "tableColumnForPointer (colMap plan) fieldPtr = Inl errTransient"
    using assms by (simp add: tableColumnForPointer_def)
  have a: "Assign plan fieldPtr v = Some (plan\<lparr>Errors := Errors plan @ [errTransient]\<rparr>)"
    using c by (simp add: Assign_def)
  have ob: "OrderBy plan fieldPtr direction = plan\<lparr>Errors := Errors plan @ [errTransient]\<rparr>"
    using tc by (simp add: OrderBy_def)
  have gb: "GroupBy plan fieldPtr = plan\<lparr>Errors := Errors plan @ [errTransient]\<rparr>"
    using tc by (simp add: GroupBy_def)
  have fl: "Where (columnForPointer (colMap plan)) d' k' f = Inl errTransient
         \<and> (\<forall>subFilters r t.
               filters plan = MF_and subFilters \<and> table plan = Some t
               \<and> Where (columnForPointer (colMap plan)) (dbmap_Dialect t) (length (args plan))
                    (andFilter subFilters) = Inr r
               \<longrightarrow> plan_Filter plan [f] = Some (plan\<lparr>filters := MF_and (subFilters @ [f])\<rparr>)
                 \<and> whereClause jm (plan\<lparr>filters := MF_and (subFilters @ [f])\<rparr>)
                     = Some (Inl errTransient, plan\<lparr>filters := MF_and (subFilters @ [f])\<rparr>))"
    if f: "f \<in> {comparisonFilter fieldPtr opr v, nullFilter fieldPtr, notNullFilter fieldPtr}"
    for f d' k'
  proof -
    have w: "Where (columnForPointer (colMap plan)) d'' k'' f = Inl errTransient" for d'' k''
      using f c by auto
    have "plan_Filter plan [f] = Some (plan\<lparr>filters := MF_and (subFilters @ [f])\<rparr>)
        \<and> whereClause jm (plan\<lparr>filters := MF_and (subFilters @ [f])\<rparr>)
            = Some (Inl errTransient, plan\<lparr>filters := MF_and (subFilters @ [f])\<rparr>)"
      if h: "filters plan = MF_and subFilters" "table plan = Some t"
        "Where (columnForPointer (colMap plan)) (dbmap_Dialect t) (length (args plan))
           (andFilter subFilters) = Inr r"
      for subFilters r t
    proof -
      have "Where (columnForPointer (colMap plan)) (dbmap_Dialect t) (length (args plan))
           (andFilter (subFilters @ [f])) = Inl errTransient"
        using and_with_failing_last[OF h(3), of f errTransient] w by simp
      then show ?thesis
        using h(1,2)
        by (simp add: plan_Filter_def MultiFilter_Add_def whereClause_def MultiFilter_Where_def
              del: Where.simps)
    qed
    with w show ?thesis by blast
  qed
  show ?thesis using a ob gb fl by blast
qed


lemma transient_reference_in_where_clause_example:
  "fieldMapForPointer (colMap wherePlan) 3 = Inl errTransient
   \<and> Assign wherePlan 3 (Val ''z'') = Some (wherePlan\<lparr>Errors := [errTransient]\<rparr>)
   \<and> OrderBy wherePlan 3 ''asc'' = wherePlan\<lparr>Errors := [errTransient]\<rparr>
   \<and> GroupBy wherePlan 3 = wherePlan\<lparr>Errors := [errTransient]\<rparr>
   \<and> plan_Equal wherePlan 3 (Val ''z'')
       = Some (wherePlan\<lparr>filters := MF_and [Equal 1 (Val ''7''), Equal 3 (Val ''z'')]\<rparr>)
   \<and> whereClause exampleJoinMethods
         (wherePlan\<lparr>filters := MF_and [Equal 1 (Val ''7''), Equal 3 (Val ''z'')]\<rparr>)
       = Some (Inl errTransient,
               wherePlan\<lparr>filters := MF_and [Equal 1 (Val ''7''), Equal 3 (Val ''z'')]\<rparr>)
   \<and> args wherePlan = []"
proof -
  have h: "fieldMapForPointer (colMap wherePlan) 3 = Inl errTransient"
    by (simp add: wherePlan_def invoicePlan_def invoiceColMap_def emptyPlan_def)
  have e: "Errors wherePlan = []" "args wherePlan = []"
    "filters wherePlan = MF_and [Equal 1 (Val ''7'')]" "table wherePlan = Some invoiceTable"
    by (simp_all add: wherePlan_def invoicePlan_def emptyPlan_def)
  have r: "Where (columnForPointer (colMap wherePlan)) (dbmap_Dialect invoiceTable)
             (length (args wherePlan)) (andFilter [Equal 1 (Val ''7'')])
           = Inr (''[id]=$1'', [Val ''7''])"
    by (simp add: wherePlan_def invoicePlan_def invoiceColMap_def emptyPlan_def Equal_def
          columnForPointer_def invoiceTable_def exampleDialect_def decimal.simps)
  note t = transient_reference_in_where_clause[OF h, of "Val ''z''" "''asc''" "''=''" exampleDialect 0
      exampleJoinMethods]
  have f: "plan_Filter wherePlan [comparisonFilter 3 ''='' (Val ''z'')]
         = Some (wherePlan\<lparr>filters := MF_and ([Equal 1 (Val ''7'')]
                    @ [comparisonFilter 3 ''='' (Val ''z'')])\<rparr>)
       \<and> whereClause exampleJoinMethods
           (wherePlan\<lparr>filters := MF_and ([Equal 1 (Val ''7'')]
                    @ [comparisonFilter 3 ''='' (Val ''z'')])\<rparr>)
         = Some (Inl errTransient,
                 wherePlan\<lparr>filters := MF_and ([Equal 1 (Val ''7'')]
                    @ [comparisonFilter 3 ''='' (Val ''z'')])\<rparr>)"
    using t e(3,4) r by blast
  show ?thesis
    using h t f e(1,2) by (simp add: plan_Equal_def Equal_def)
qed

text \<open>What the terminal calls make of a where clause that fails to render, on a plan
  without joins: they return its error and call no executor.\<close>

lemma failing_where_clause_terminal_calls:
  assumes "Errors plan = []" and "joins plan = []"
    and "length (assignCols plan) \<le> length (assignBindVars plan)"
    and "whereClause jm plan = Some (Inl err, plan)"
  shows "Select jm executor plan = Some (([], Some err), plan, [])
       \<and> Update jm executor2 plan = Some ((- 1, Some err), plan, [])
       \<and> Delete jm executor2 plan = Some ((- 1, Some err), plan, [])"
proof -
  obtain s where s: "setList_loop 0 (assignCols plan) (assignBindVars plan) = Some s"
    using setList_loop_total[of 0 "assignCols plan" "assignBindVars plan"] assms(3) by auto
  obtain t where t: "table plan = Some t"
    using assms(4) by (cases "table plan") (auto simp: whereClause_def)
  show ?thesis
    using assms(1,2,4) s t
    by (simp add: Select_def selectQuery_def selectJoinClause_def Update_def Delete_def
          joinFromAndWhereClause_def Let_def)
qed

text \<open>No call that references a transient column appends its value: \<^verbatim>\<open>Assign\<close>,
  \<^verbatim>\<open>OrderBy\<close> and \<^verbatim>\<open>GroupBy\<close> only append the error; a filter call, in the where view or
  in a join view, changes neither \<^verbatim>\<open>plan.args\<close> nor the errors; and a where clause that
  fails to render, with whatever error, leaves the plan as it was.\<close>

lemma transient_call_records_error:
  assumes "fieldMapForPointer (colMap plan) fieldPtr = Inl errTransient"
  shows "Assign plan fieldPtr v = Some (plan\<lparr>Errors := Errors plan @ [errTransient]\<rparr>)
    \<and> OrderBy plan fieldPtr direction = plan\<lparr>Errors := Errors plan @ [errTransient]\<rparr>
    \<and> GroupBy plan fieldPtr = plan\<lparr>Errors := Errors plan @ [errTransient]\<rparr>"
  using assms
  by (simp add: Assign_def OrderBy_def GroupBy_def columnForPointer_def tableColumnForPointer_def)

lemma filter_calls_keep_args:
  assumes "plan_Filter plan newFilters = Some plan'"
  shows "args plan' = args plan \<and> Errors plan' = Errors plan"
  using assms by (auto simp: plan_Filter_def split: option.splits)

lemma whereClause_error_keeps_plan:
  assumes "whereClause jm plan = Some (Inl err, plan')"
  shows "plan' = plan"
  using assms
  by (auto simp: whereClause_def split: option.splits sum.splits prod.splits if_splits)

text \<open>
  C4 (the code at a failing input). query_plans.go, the chain
  \<^verbatim>\<open>Query(inv).Assign(&inv.Memo, "x").Join(person).Equal(&person.Secret, "y").Where().Update()\<close>,
  where \<^verbatim>\<open>Secret\<close> is a transient column of the joined table: the filter call \<^verbatim>\<open>Equal\<close>
  references a transient column, the rendering of the join's filter in
  \<^verbatim>\<open>joinFromAndWhereClause\<close> fails with the transient-column error, and \<^verbatim>\<open>Update\<close>
  (line 720) returns -1 with a nil error: the caller sees no transient-column error, which
  the specification says the reference always fails with. \<^verbatim>\<open>Delete\<close> in the same state
  returns the error. (The join's filter is rendered as an \<^verbatim>\<open>andFilter\<close> of its filters.)
\<close>

theorem transient_join_filter_Update_no_error:
  "Option.bind (Option.bind (Option.bind (Assign invoicePlan 2 (Val ''x''))
      (\<lambda>p. Join exampleTableFor p (StructPtr ''Person'' personFields)))
      (\<lambda>p. plan_Equal p 12 (Val ''y'')))
      (\<lambda>p. plan_Where p [])
     = Some joinedPlan
   \<and> fieldMapForPointer (colMap joinedPlan) 12 = Inl errTransient
   \<and> Update exampleJoinMethods (exampleExecutor :: (string iface, string) SqlExecutor) joinedPlan
       = Some ((- 1, None), joinedPlan, [])
   \<and> Delete exampleJoinMethods (exampleExecutor :: (string iface, string) SqlExecutor) joinedPlan
       = Some ((- 1, Some errTransient), joinedPlan, [])"
proof -
  have r: "fieldMapForPointer (colMap joinedPlan) 12 = Inl errTransient"
    by (simp add: joinedPlan_def emptyPlan_def invoiceColMap_def personColMap_def)
  have e: "Errors joinedPlan = []" "table joinedPlan = Some invoiceTable"
    "setList_loop 0 (assignCols joinedPlan) (assignBindVars joinedPlan) = Some ''[memo]=$1''"
    by (simp_all add: joinedPlan_def emptyPlan_def)
  have u: "Update exampleJoinMethods (exampleExecutor :: (string iface, string) SqlExecutor)
      joinedPlan = Some ((- 1, None), joinedPlan, [])"
    using e joinedPlan_join_fails by (simp add: Update_def)
  have d: "Delete exampleJoinMethods (exampleExecutor :: (string iface, string) SqlExecutor)
      joinedPlan = Some ((- 1, Some errTransient), joinedPlan, [])"
    using e joinedPlan_join_fails by (simp add: Delete_def)
  show ?thesis using joinedPlan_chain r u d by simp
qed

text \<open>However the join's filter is rendered (the methods of \<^verbatim>\<open>joinFilter\<close> are outside the
  two files), \<^verbatim>\<open>Update\<close> returns a nil error on this plan: either the rendering fails and
  the error is dropped, or it does not fail and the statement is executed.\<close>

lemma Update_reports_no_error_for_any_join_rendering:
  assumes "Update jm (exampleExecutor :: (string iface, string) SqlExecutor) joinedPlan
             = Some ((rows, err), plan', calls)"
  shows "err = None"
proof -
  let ?j = "\<lparr> quotedJoinTable = ''[person]'', onFilters = [Equal 12 (Val ''y'')] \<rparr>
              :: (nat, string iface) joinFilter"
  have e: "Errors joinedPlan = []" "table joinedPlan = Some invoiceTable"
    "setList_loop 0 (assignCols joinedPlan) (assignBindVars joinedPlan) = Some ''[memo]=$1''"
    "joins joinedPlan = [?j]" "filters joinedPlan = MF_and []"
    by (simp_all add: joinedPlan_def emptyPlan_def)
  show ?thesis
  proof (cases "join_Where jm ?j (colMap joinedPlan) (dbmap_Dialect invoiceTable)
                  (length (args joinedPlan))")
    case (Inl x)
    then show ?thesis
      using assms e by (simp add: Update_def joinFromAndWhereClause_def)
  next
    case (Inr p)
    obtain wh wa where p: "p = (wh, wa)" by (cases p)
    show ?thesis
      using assms e Inr p
      by (simp add: Update_def joinFromAndWhereClause_def whereClause_def MultiFilter_Where_def
            execRows_def exampleExecutor_def Let_def split: if_splits)
  qed
qed

subsection \<open>C5: resolution by field address\<close>


text \<open>A target joined to a second value of its own type: the addresses of the two \<^verbatim>\<open>Id\<close>
  fields are distinct, and both resolve to the column \<^verbatim>\<open>id\<close>.\<close>

lemma self_join_same_column:
  "Join exampleTableFor invoicePlan (StructPtr ''Invoice'' secondInvoiceFields)
     = Some (invoicePlan\<lparr>colMap := invoiceColMap @ map (\<lambda>e. e\<lparr>addr := addr e + 20\<rparr>) invoiceColMap,
               filters := MF_join \<lparr> quotedJoinTable = ''[invoice]'', onFilters = [] \<rparr>\<rparr>)
   \<and> columnForPointer (invoiceColMap @ map (\<lambda>e. e\<lparr>addr := addr e + 20\<rparr>) invoiceColMap) 1
       = Inr ''[id]''
   \<and> columnForPointer (invoiceColMap @ map (\<lambda>e. e\<lparr>addr := addr e + 20\<rparr>) invoiceColMap) 21
       = Inr ''[id]''"
  by (simp add: Join_def storeJoin_def mapTable_def exampleTableFor_def invoicePlan_def
      emptyPlan_def secondInvoiceFields_def invoiceTable_def ColMap_def invoiceColMap_def
      exampleDialect_def columnForPointer_def)

text \<open>What \<^verbatim>\<open>mapColumns\<close> appends: one binding for every exported named field, in order,
  with the column that \<^verbatim>\<open>ColMap\<close> gives for the field's name; the bindings already there
  stay in front.\<close>

lemma mapColumns_bindings:
  "mapColumns t flds cm0 = Some cm \<Longrightarrow>
     map (\<lambda>e. (Some (column e), addr e)) cm
       = map (\<lambda>e. (Some (column e), addr e)) cm0
         @ map (\<lambda>(name, a). (ColMap t name, a)) (exportedFields flds)"
proof (induction t flds cm0 arbitrary: cm rule: mapColumns.induct)
  case (1 t colMap)
  then show ?case by simp
next
  case (2 t flds rest colMap)
  then obtain cm' where c: "mapColumns t flds colMap = Some cm'" "mapColumns t rest cm' = Some cm"
    by (auto split: option.splits)
  show ?case using 2(1)[OF c(1)] 2(2)[OF c(1) c(2)] by simp
next
  case (3 t rest colMap)
  then show ?case by simp
next
  case (4 t name pkgPath fieldAddr rest colMap)
  show ?case
  proof (cases "pkgPath = []")
    case True
    then obtain col where c: "ColMap t name = Some col"
      "mapColumns t rest (colMap @ [\<lparr> addr = fieldAddr, column = col,
          quotedTable = QuotedTableForQuery (dbmap_Dialect t) (SchemaName t) (TableName t),
          quotedColumn = QuoteField (dbmap_Dialect t) (ColumnName col) \<rparr>]) = Some cm"
      using 4(3) by (auto split: option.splits)
    show ?thesis using 4(1)[OF True c(1) c(2)] True c(1) by simp
  next
    case False
    then show ?thesis using 4(2)[OF False] 4(3) by simp
  qed
qed

lemma mapColumns_extends:
  "mapColumns t flds cm0 = Some cm \<Longrightarrow> \<exists>later. cm = cm0 @ later"
proof (induction t flds cm0 arbitrary: cm rule: mapColumns.induct)
  case (1 t colMap)
  then show ?case by simp
next
  case (2 t flds rest colMap)
  then obtain cm' where c: "mapColumns t flds colMap = Some cm'" "mapColumns t rest cm' = Some cm"
    by (auto split: option.splits)
  from 2(1)[OF c(1)] 2(2)[OF c(1) c(2)] show ?case by auto
next
  case (3 t rest colMap)
  then show ?case by simp
next
  case (4 t name pkgPath fieldAddr rest colMap)
  show ?case
  proof (cases "pkgPath = []")
    case True
    then obtain col where c: "ColMap t name = Some col"
      "mapColumns t rest (colMap @ [\<lparr> addr = fieldAddr, column = col,
          quotedTable = QuotedTableForQuery (dbmap_Dialect t) (SchemaName t) (TableName t),
          quotedColumn = QuoteField (dbmap_Dialect t) (ColumnName col) \<rparr>]) = Some cm"
      using 4(3) by (auto split: option.splits)
    from 4(1)[OF True c(1) c(2)] show ?thesis by auto
  next
    case False
    then show ?thesis using 4(2)[OF False] 4(3) by simp
  qed
qed

text \<open>A resolution that succeeds returns a binding of the map with the address asked for,
  and stays the same when bindings are appended, as \<^verbatim>\<open>Join\<close> does.\<close>

lemma fieldMapForPointer_found:
  "fieldMapForPointer structMap fieldPtr = Inr fm \<Longrightarrow> fm \<in> set structMap \<and> addr fm = fieldPtr"
  by (induction structMap) (auto split: if_splits)

lemma fieldMapForPointer_append:
  "fieldMapForPointer structMap fieldPtr = Inr fm \<Longrightarrow>
     fieldMapForPointer (structMap @ later) fieldPtr = Inr fm"
  by (induction structMap) (auto split: if_splits)

lemma Join_extends_colMap:
  assumes "Join tableFor plan target = Some plan'"
  shows "\<exists>later. colMap plan' = colMap plan @ later"
proof -
  have s: "colMap (storeJoin plan) = colMap plan"
    by (simp add: storeJoin_def split: MultiFilter.splits)
  obtain t cm where m: "mapTable tableFor target (colMap plan) = Some (Inr t, cm)"
    "colMap plan' = cm"
    using assms s by (auto simp: Join_def Let_def split: option.splits sum.splits)
  then obtain n flds where "target = StructPtr n flds" "mapColumns t flds (colMap plan) = Some cm"
    by (auto simp: mapTable_def split: Target.splits sum.splits option.splits)
  then show ?thesis using mapColumns_extends m(2) by blast
qed

text \<open>With the lookup by field name, the column of every binding carries the name of the
  field bound, for one call of \<^verbatim>\<open>mapColumns\<close> and for a sequence of calls.\<close>

lemma ColMap_inj:
  "ColMap t n1 = Some col \<Longrightarrow> ColMap t n2 = Some col \<Longrightarrow> n1 = n2"
  by (auto simp: ColMap_def find_Some_iff)




lemma mapColumnsAll_append:
  "mapColumnsAll (xs @ ys) cm0 =
     (case mapColumnsAll xs cm0 of None \<Rightarrow> None | Some cm \<Rightarrow> mapColumnsAll ys cm)"
  by (induction xs arbitrary: cm0) (auto split: option.splits)

text \<open>The binding set of a plan is built by such calls: \<^verbatim>\<open>query\<close> makes the first,
  \<^verbatim>\<open>Join\<close> one more, and the other builder calls leave the binding set as it is.\<close>

lemma query_binds:
  assumes "query tableFor (StructPtr typeName flds) = Some plan" and "tableFor typeName = Inr t"
  shows "mapColumnsAll [(t, flds)] [] = Some (colMap plan)"
  using assms by (auto simp: query_def mapTable_def emptyPlan_def split: option.splits)

lemma Join_binds:
  assumes "Join tableFor plan target = Some plan'"
  shows "\<exists>typeName flds t. target = StructPtr typeName flds \<and> tableFor typeName = Inr t
           \<and> mapColumnsAll [(t, flds)] (colMap plan) = Some (colMap plan')"
proof -
  have s: "colMap (storeJoin plan) = colMap plan"
    by (simp add: storeJoin_def split: MultiFilter.splits)
  obtain t cm where m: "mapTable tableFor target (colMap plan) = Some (Inr t, cm)"
    "colMap plan' = cm"
    using assms s by (auto simp: Join_def Let_def split: option.splits sum.splits)
  then obtain n flds where "target = StructPtr n flds" "tableFor n = Inr t"
    "mapColumns t flds (colMap plan) = Some cm"
    by (auto simp: mapTable_def split: Target.splits sum.splits option.splits)
  then show ?thesis using m(2) by auto
qed

lemma other_builder_calls_keep_colMap:
  "Assign plan fieldPtr v = Some plan1 \<Longrightarrow> colMap plan1 = colMap plan"
  "plan_Filter plan fs = Some plan2 \<Longrightarrow> colMap plan2 = colMap plan"
  "plan_Where plan fs = Some plan3 \<Longrightarrow> colMap plan3 = colMap plan"
  "colMap (OrderBy plan fieldPtr direction) = colMap plan"
  "colMap (GroupBy plan fieldPtr) = colMap plan"
  "colMap (Limit plan n) = colMap plan"
  "colMap (Offset plan n) = colMap plan"
  by (auto simp: Assign_def plan_Filter_def plan_Where_def storeJoin_def OrderBy_def GroupBy_def
      Limit_def Offset_def split: sum.splits option.splits MultiFilter.splits)



text \<open>In particular resolution is injective on the binding set of one target whose
  exported fields have pairwise distinct names, given pairwise distinct columns by the
  table.\<close>

lemma resolution_injective_for_distinct_names:
  assumes "mapColumns t flds [] = Some cm"
    and "distinct (map fst (exportedFields flds))"
    and "inj_on (ColMap t) (fst ` set (exportedFields flds))"
    and "fieldMapForPointer cm a1 = Inr fm1"
    and "fieldMapForPointer cm a2 = Inr fm2"
    and "a1 \<noteq> a2"
  shows "column fm1 \<noteq> column fm2
       \<and> fieldMapForPointer (cm @ later) a1 = Inr fm1
       \<and> fieldMapForPointer (cm @ later) a2 = Inr fm2"
proof -
  have b: "map (\<lambda>e. (Some (column e), addr e)) cm
       = map (\<lambda>(name, a). (ColMap t name, a)) (exportedFields flds)"
    using mapColumns_bindings[OF assms(1)] by simp
  have "map (\<lambda>e. Some (column e)) cm = map fst (map (\<lambda>e. (Some (column e), addr e)) cm)"
    by (simp add: o_def)
  also have "\<dots> = map (ColMap t) (map fst (exportedFields flds))"
    unfolding b by (simp add: o_def split_def)
  finally have c: "map (\<lambda>e. Some (column e)) cm = map (ColMap t) (map fst (exportedFields flds))" .
  have "distinct (map (ColMap t) (map fst (exportedFields flds)))"
    using assms(2,3) distinct_map[of "ColMap t" "map fst (exportedFields flds)"] by simp
  then have "distinct (map (\<lambda>e. Some (column e)) cm)"
    using c by simp
  then have inj: "inj_on (\<lambda>e. Some (column e)) (set cm)"
    by (simp add: distinct_map)
  have m: "fm1 \<in> set cm" "fm2 \<in> set cm" "addr fm1 = a1" "addr fm2 = a2"
    using fieldMapForPointer_found[OF assms(4)] fieldMapForPointer_found[OF assms(5)]
    by simp_all
  then have "fm1 \<noteq> fm2" using assms(6) by auto
  then have "column fm1 \<noteq> column fm2" using inj m(1,2) by (auto dest: inj_onD)
  then show ?thesis
    using fieldMapForPointer_append[OF assms(4), of later]
      fieldMapForPointer_append[OF assms(5), of later]
    by simp
qed

end
